theory Spec2Isabelle
  imports Main "HOL-Library.Word" "HOL-Library.AList"
begin

section \<open>The data model (model/todo.go)\<close>

text \<open>
  Go's \<open>int64\<close> is a 64-bit word. \<open>time.Time\<close> is a library type the handlers only
  copy; an instant is represented by an integer.
\<close>

type_synonym int64 = "64 word"
type_synonym Time = int

record TODO =
  ID :: int64
  Subject :: string
  Description :: string
  CreatedAt :: Time
  UpdatedAt :: Time

record CreateTODORequest =
  Subject :: string
  Description :: string

record CreateTODOResponse =
  TODO :: TODO

record ReadTODORequest =
  PrevID :: int64
  Size :: int64

record ReadTODOResponse =
  TODOs :: "TODO list"

record UpdateTODORequest =
  ID :: int64
  Subject :: string
  Description :: string

record UpdateTODOResponse =
  TODO :: TODO

record DeleteTODORequest =
  IDs :: "int64 list"

datatype DeleteTODOResponse = DeleteTODOResponse

text \<open>The zero values \<open>var req model.CreateTODORequest\<close> and
  \<open>var req model.UpdateTODORequest\<close> start from.\<close>

definition zero_CreateTODORequest :: CreateTODORequest where
  "zero_CreateTODORequest = \<lparr>CreateTODORequest.Subject = [], Description = []\<rparr>"

definition zero_UpdateTODORequest :: UpdateTODORequest where
  "zero_UpdateTODORequest = \<lparr>UpdateTODORequest.ID = 0, Subject = [], Description = []\<rparr>"

section \<open>Errors\<close>

text \<open>
  Modelled from the spec: the declaration of \<open>model.ErrNotFound\<close> is not among the
  sources; the spec describes it as the distinguishable "not found" condition of the
  service's update operation, which \<open>handleUpdate\<close> recognises by the dynamic type
  \<open>*model.ErrNotFound\<close> of the error value. An error value is therefore either of
  that dynamic type (\<open>ErrNotFound\<close>), a type error of the JSON decoder (the JSON
  value's kind, the Go type, the struct and the field it was meant for), or any other
  error, kept by its message.
\<close>

datatype error =
    ErrNotFound
  | UnmarshalTypeError string string string string
  | Err string

section \<open>Decoding a request body (encoding/json, as the handlers use it)\<close>

text \<open>
  \<open>json.NewDecoder(r.Body).Decode(&req)\<close> first scans one complete JSON value from the
  stream (an empty stream, a truncated or an ill-formed value is an error and nothing is
  decoded), then stores that value into the struct. A body is represented by what the
  scanner finds at its head: an error, or the JSON value. A number keeps what the
  decoder looks at: the integer a literal without fraction and exponent denotes
  (\<open>JNum\<close>), or the fact that the literal has a fraction or an exponent
  (\<open>JNumFrac\<close>). A string is the unquoted text, an object its members in the order
  of the text.
\<close>

datatype json =
    JNull
  | JBool bool
  | JNum int
  | JNumFrac
  | JString string
  | JArray "json list"
  | JObject "(string \<times> json) list"

type_synonym body = "error + json"

fun valueKind :: "json \<Rightarrow> string" where
  "valueKind JNull = ''null''"
| "valueKind (JBool _) = ''bool''"
| "valueKind (JNum _) = ''number''"
| "valueKind JNumFrac = ''number''"
| "valueKind (JString _) = ''string''"
| "valueKind (JArray _) = ''array''"
| "valueKind (JObject _) = ''object''"

definition MinInt64 :: int where
  "MinInt64 = - (2 ^ 63)"

definition MaxInt64 :: int where
  "MaxInt64 = 2 ^ 63 - 1"

text \<open>
  Storing a JSON value into a field of kind string: a string is stored, \<open>null\<close>
  leaves the field as it is, anything else is a type error. The arguments are the
  struct and the field (for the error), the value, and the field's present content.
\<close>

fun storeString :: "string \<Rightarrow> string \<Rightarrow> json \<Rightarrow> string \<Rightarrow> error + string" where
  "storeString st f (JString s) old = Inr s"
| "storeString st f JNull old = Inr old"
| "storeString st f v old = Inl (UnmarshalTypeError (valueKind v) ''string'' st f)"

text \<open>The values a field of kind string accepts.\<close>

fun stringOrNull :: "json \<Rightarrow> bool" where
  "stringOrNull (JString s) = True"
| "stringOrNull JNull = True"
| "stringOrNull v = False"

text \<open>
  Storing into a field of kind int64: the literal is read by
  \<open>strconv.ParseInt(s, 10, 64)\<close>, which fails on a fraction, an exponent, and a value
  outside the 64-bit range.
\<close>

fun storeInt64 :: "string \<Rightarrow> string \<Rightarrow> json \<Rightarrow> int64 \<Rightarrow> error + int64" where
  "storeInt64 st f (JNum n) old =
     (if MinInt64 \<le> n \<and> n \<le> MaxInt64 then Inr (word_of_int n)
      else Inl (UnmarshalTypeError ''number'' ''int64'' st f))"
| "storeInt64 st f JNull old = Inr old"
| "storeInt64 st f v old = Inl (UnmarshalTypeError (valueKind v) ''int64'' st f)"

text \<open>The values a field of kind int64 accepts.\<close>

fun int64OrNull :: "json \<Rightarrow> bool" where
  "int64OrNull (JNum n) = (MinInt64 \<le> n \<and> n \<le> MaxInt64)"
| "int64OrNull JNull = True"
| "int64OrNull v = False"

text \<open>
  A member's key selects the field whose \<open>json\<close> tag it equals, or equals up to case
  folding. Folding maps the ASCII letters to upper case (a lower-case letter has bit 5 set, the upper-case one has it clear); of the other characters only
  the long s (U+017F, bytes C5 BF) and the Kelvin sign (U+212A, bytes E2 84 AA) fold to
  an ASCII letter. The folding of the remaining non-ASCII characters among themselves is
  left out: the tags of this program are ASCII, and no such character meets one.
\<close>

definition upperASCII :: "char \<Rightarrow> char" where
  "upperASCII c =
     (if (97::nat) \<le> of_char c \<and> of_char c \<le> (122::nat)
      then Char (digit0 c) (digit1 c) (digit2 c) (digit3 c) (digit4 c) False (digit6 c) (digit7 c)
      else c)"

fun foldName :: "string \<Rightarrow> string" where
  "foldName (a # b # c # cs) =
     (if a = CHR 0xE2 \<and> b = CHR 0x84 \<and> c = CHR 0xAA then CHR ''K'' # foldName cs
      else if a = CHR 0xC5 \<and> b = CHR 0xBF then CHR ''S'' # foldName (c # cs)
      else upperASCII a # foldName (b # c # cs))"
| "foldName [a, b] =
     (if a = CHR 0xC5 \<and> b = CHR 0xBF then [CHR ''S'']
      else [upperASCII a, upperASCII b])"
| "foldName [a] = [upperASCII a]"
| "foldName [] = []"

definition keyIs :: "string \<Rightarrow> string \<Rightarrow> bool" where
  "keyIs tag k \<longleftrightarrow> k = tag \<or> foldName k = foldName tag"

text \<open>
  A member fits a struct when its key selects no field, or its value is one the
  selected field accepts.
\<close>

definition fits_CreateTODORequest :: "string \<times> json \<Rightarrow> bool" where
  "fits_CreateTODORequest m =
     (if keyIs ''subject'' (fst m) \<or> keyIs ''description'' (fst m) then stringOrNull (snd m)
      else True)"

definition fits_UpdateTODORequest :: "string \<times> json \<Rightarrow> bool" where
  "fits_UpdateTODORequest m =
     (if keyIs ''id'' (fst m) then int64OrNull (snd m)
      else if keyIs ''subject'' (fst m) \<or> keyIs ''description'' (fst m)
           then stringOrNull (snd m)
      else True)"

text \<open>
  The first type error is saved and decoding goes on with the next member; the saved
  error is what \<open>Decode\<close> returns at the end.
\<close>

definition saveError :: "error \<Rightarrow> error option \<Rightarrow> error option" where
  "saveError e saved = (case saved of None \<Rightarrow> Some e | Some e0 \<Rightarrow> Some e0)"

fun object_CreateTODORequest ::
  "(string \<times> json) list \<Rightarrow> CreateTODORequest \<times> error option \<Rightarrow> CreateTODORequest \<times> error option"
where
  "object_CreateTODORequest [] acc = acc"
| "object_CreateTODORequest ((k, v) # ms) (req, saved) =
     object_CreateTODORequest ms
       (if keyIs ''subject'' k then
          (case storeString ''CreateTODORequest'' ''subject'' v (CreateTODORequest.Subject req) of
             Inl e \<Rightarrow> (req, saveError e saved)
           | Inr s \<Rightarrow> (req\<lparr>CreateTODORequest.Subject := s\<rparr>, saved))
        else if keyIs ''description'' k then
          (case storeString ''CreateTODORequest'' ''description'' v
                  (CreateTODORequest.Description req) of
             Inl e \<Rightarrow> (req, saveError e saved)
           | Inr s \<Rightarrow> (req\<lparr>CreateTODORequest.Description := s\<rparr>, saved))
        else (req, saved))"

fun object_UpdateTODORequest ::
  "(string \<times> json) list \<Rightarrow> UpdateTODORequest \<times> error option \<Rightarrow> UpdateTODORequest \<times> error option"
where
  "object_UpdateTODORequest [] acc = acc"
| "object_UpdateTODORequest ((k, v) # ms) (req, saved) =
     object_UpdateTODORequest ms
       (if keyIs ''id'' k then
          (case storeInt64 ''UpdateTODORequest'' ''id'' v (UpdateTODORequest.ID req) of
             Inl e \<Rightarrow> (req, saveError e saved)
           | Inr n \<Rightarrow> (req\<lparr>UpdateTODORequest.ID := n\<rparr>, saved))
        else if keyIs ''subject'' k then
          (case storeString ''UpdateTODORequest'' ''subject'' v (UpdateTODORequest.Subject req) of
             Inl e \<Rightarrow> (req, saveError e saved)
           | Inr s \<Rightarrow> (req\<lparr>UpdateTODORequest.Subject := s\<rparr>, saved))
        else if keyIs ''description'' k then
          (case storeString ''UpdateTODORequest'' ''description'' v
                  (UpdateTODORequest.Description req) of
             Inl e \<Rightarrow> (req, saveError e saved)
           | Inr s \<Rightarrow> (req\<lparr>UpdateTODORequest.Description := s\<rparr>, saved))
        else (req, saved))"

text \<open>
  Storing the scanned value into the struct: an object is stored member by member,
  \<open>null\<close> stores nothing and is no error, every other value is a type error.
\<close>

definition unmarshal_CreateTODORequest :: "json \<Rightarrow> error + CreateTODORequest" where
  "unmarshal_CreateTODORequest v =
     (case v of
        JObject ms \<Rightarrow>
          (case object_CreateTODORequest ms (zero_CreateTODORequest, None) of
             (req, None) \<Rightarrow> Inr req
           | (req, Some e) \<Rightarrow> Inl e)
      | JNull \<Rightarrow> Inr zero_CreateTODORequest
      | _ \<Rightarrow> Inl (UnmarshalTypeError (valueKind v) ''model.CreateTODORequest'' [] []))"

definition unmarshal_UpdateTODORequest :: "json \<Rightarrow> error + UpdateTODORequest" where
  "unmarshal_UpdateTODORequest v =
     (case v of
        JObject ms \<Rightarrow>
          (case object_UpdateTODORequest ms (zero_UpdateTODORequest, None) of
             (req, None) \<Rightarrow> Inr req
           | (req, Some e) \<Rightarrow> Inl e)
      | JNull \<Rightarrow> Inr zero_UpdateTODORequest
      | _ \<Rightarrow> Inl (UnmarshalTypeError (valueKind v) ''model.UpdateTODORequest'' [] []))"

definition Decode_CreateTODORequest :: "body \<Rightarrow> error + CreateTODORequest" where
  "Decode_CreateTODORequest b =
     (case b of Inl e \<Rightarrow> Inl e | Inr v \<Rightarrow> unmarshal_CreateTODORequest v)"

definition Decode_UpdateTODORequest :: "body \<Rightarrow> error + UpdateTODORequest" where
  "Decode_UpdateTODORequest b =
     (case b of Inl e \<Rightarrow> Inl e | Inr v \<Rightarrow> unmarshal_UpdateTODORequest v)"

section \<open>The HTTP request and the response writer (net/http, as the handlers use it)\<close>

text \<open>
  Of a request the handlers read the method and the body; the server hands a handler
  a request whose body is never nil. The request's context is handed to the service
  unchanged and is not represented.
\<close>

record Request =
  Method :: string
  Body :: body

definition MethodPost :: string where
  "MethodPost = ''POST''"

definition MethodPut :: string where
  "MethodPut = ''PUT''"

definition StatusOK :: nat where
  "StatusOK = 200"

definition StatusBadRequest :: nat where
  "StatusBadRequest = 400"

definition StatusNotFound :: nat where
  "StatusNotFound = 404"

definition StatusMethodNotAllowed :: nat where
  "StatusMethodNotAllowed = 405"

definition StatusInternalServerError :: nat where
  "StatusInternalServerError = 500"

text \<open>
  A response writer: the header map the handler edits, whether the status line has
  gone out and with which code and which headers, the body bytes written, and whether
  writes to the connection fail (\<open>broken\<close>, a fact of the environment). The first
  \<open>WriteHeader\<close> fixes the status and the headers; a later one changes nothing. A
  \<open>Write\<close> before any \<open>WriteHeader\<close> sends status 200 first. The server hands
  a handler a writer whose header has not been written; the statements about the
  status of a response start from such a writer.
\<close>

record ResponseWriter =
  header :: "(string \<times> string) list"
  wroteHeader :: bool
  status :: nat
  sentHeader :: "(string \<times> string) list"
  written :: string
  broken :: bool

definition Header_Set :: "string \<Rightarrow> string \<Rightarrow> ResponseWriter \<Rightarrow> ResponseWriter" where
  "Header_Set k v w = w\<lparr>header := AList.update k v (header w)\<rparr>"

definition WriteHeader :: "nat \<Rightarrow> ResponseWriter \<Rightarrow> ResponseWriter" where
  "WriteHeader code w =
     (if wroteHeader w then w
      else w\<lparr>wroteHeader := True, status := code, sentHeader := header w\<rparr>)"

definition Write :: "string \<Rightarrow> ResponseWriter \<Rightarrow> ResponseWriter \<times> error option" where
  "Write bs w =
     (let w1 = (if wroteHeader w then w else WriteHeader StatusOK w)
      in if broken w1 then (w1, Some (Err ''write: broken pipe''))
         else (w1\<lparr>written := written w1 @ bs\<rparr>, None))"

text \<open>
  \<open>http.Error(w, msg, code)\<close> sets the two headers of a plain-text reply, writes the
  header with \<open>code\<close> and prints \<open>msg\<close> and a newline, ignoring a failed write.
  (Newer releases also delete a few entity headers first; this handler never sets
  them.)
\<close>

definition http_Error :: "string \<Rightarrow> nat \<Rightarrow> ResponseWriter \<Rightarrow> ResponseWriter" where
  "http_Error msg code w =
     (let w1 = Header_Set ''Content-Type'' ''text/plain; charset=utf-8'' w;
          w2 = Header_Set ''X-Content-Type-Options'' ''nosniff'' w1;
          w3 = WriteHeader code w2
      in fst (Write (msg @ [CHR 0x0A]) w3))"

text \<open>
  \<open>json.NewEncoder(w).Encode(v)\<close> marshals \<open>v\<close> into a buffer, and only when that
  succeeded writes the buffer and a newline with one \<open>Write\<close>. Marshalling is a
  parameter: a function from the value to its JSON text or an error (a
  \<open>time.Time\<close> whose year is outside 0..9999 cannot be marshalled). The value
  encoded is a pointer; a nil pointer is encoded as \<open>null\<close>.
\<close>

type_synonym 'a marshaller = "'a \<Rightarrow> error + string"

definition marshalPtr :: "'a marshaller \<Rightarrow> 'a option \<Rightarrow> error + string" where
  "marshalPtr m p = (case p of None \<Rightarrow> Inr ''null'' | Some v \<Rightarrow> m v)"

definition Encode :: "'a marshaller \<Rightarrow> 'a option \<Rightarrow> ResponseWriter \<Rightarrow> ResponseWriter \<times> error option" where
  "Encode m p w =
     (case marshalPtr m p of
        Inl e \<Rightarrow> (w, Some e)
      | Inr bs \<Rightarrow> Write (bs @ [CHR 0x0A]) w)"

record JSON =
  Marshal_CreateTODOResponse :: "CreateTODOResponse marshaller"
  Marshal_UpdateTODOResponse :: "UpdateTODOResponse marshaller"

section \<open>The service and what a handler can change\<close>

text \<open>
  Modelled from the spec: \<open>service.TODOService\<close> is not among the sources; the spec
  gives its four operations and their results. The service is a parameter: each
  operation is a function of the service's state (of any type \<open>'s\<close>) and the
  arguments, returning the Go results and the new state. A returned \<open>*model.TODO\<close>
  may be nil (\<open>None\<close>), a returned \<open>error\<close> may be nil (\<open>None\<close>).
\<close>

record 's TODOService =
  CreateTODO :: "'s \<Rightarrow> string \<Rightarrow> string \<Rightarrow> (TODO option \<times> error option) \<times> 's"
  ReadTODO :: "'s \<Rightarrow> int64 \<Rightarrow> int64 \<Rightarrow> (TODO list \<times> error option) \<times> 's"
  UpdateTODO :: "'s \<Rightarrow> int64 \<Rightarrow> string \<Rightarrow> string \<Rightarrow> (TODO option \<times> error option) \<times> 's"
  DeleteTODO :: "'s \<Rightarrow> int64 list \<Rightarrow> error option \<times> 's"

record 's TODOHandler =
  svc :: "'s TODOService"

definition NewTODOHandler :: "'s TODOService \<Rightarrow> 's TODOHandler" where
  "NewTODOHandler s = \<lparr>svc = s\<rparr>"

text \<open>
  Besides the response, handling a request can change the service's state, invoke
  service operations (recorded in order, with their arguments), print log lines
  (format and error argument) and close the request body.
\<close>

datatype call =
    CallCreateTODO string string
  | CallReadTODO int64 int64
  | CallUpdateTODO int64 string string
  | CallDeleteTODO "int64 list"

datatype logline = Printf string error

record 's world =
  db :: 's
  calls :: "call list"
  logs :: "logline list"
  bodyClosed :: bool

definition invoke :: "call \<Rightarrow> 's \<Rightarrow> 's world \<Rightarrow> 's world" where
  "invoke c d \<sigma> = \<sigma>\<lparr>db := d, calls := calls \<sigma> @ [c]\<rparr>"

definition log_Printf :: "string \<Rightarrow> error \<Rightarrow> 's world \<Rightarrow> 's world" where
  "log_Printf fmt e \<sigma> = \<sigma>\<lparr>logs := logs \<sigma> @ [Printf fmt e]\<rparr>"

definition Body_Close :: "'s world \<Rightarrow> 's world" where
  "Body_Close \<sigma> = \<sigma>\<lparr>bodyClosed := True\<rparr>"

text \<open>
  A call either returns a value or panics (dereferencing a nil pointer); either way
  it leaves a world behind.
\<close>

datatype ('a, 's) outcome = Panic string "'s world" | Return 'a "'s world"

fun worldOf :: "('a, 's) outcome \<Rightarrow> 's world" where
  "worldOf (Panic msg \<sigma>) = \<sigma>"
| "worldOf (Return x \<sigma>) = \<sigma>"

fun panicked :: "('a, 's) outcome \<Rightarrow> bool" where
  "panicked (Panic msg \<sigma>) = True"
| "panicked (Return x \<sigma>) = False"

definition nilDeref :: string where
  "nilDeref = ''runtime error: invalid memory address or nil pointer dereference''"

section \<open>The handlers (handler/todo.go)\<close>

definition Create ::
  "'s TODOHandler \<Rightarrow> CreateTODORequest \<Rightarrow> 's world
     \<Rightarrow> (CreateTODOResponse option \<times> error option, 's) outcome"
where
  "Create h req \<sigma> =
     (let ((todo, err), d) =
            CreateTODO (svc h) (db \<sigma>)
              (CreateTODORequest.Subject req) (CreateTODORequest.Description req);
          \<sigma>1 = invoke (CallCreateTODO (CreateTODORequest.Subject req)
                         (CreateTODORequest.Description req)) d \<sigma>
      in case err of
           Some e \<Rightarrow> Return (None, Some e) \<sigma>1
         | None \<Rightarrow>
             (case todo of
                None \<Rightarrow> Panic nilDeref \<sigma>1
              | Some t \<Rightarrow> Return (Some \<lparr>CreateTODOResponse.TODO = t\<rparr>, None) \<sigma>1))"

text \<open>
  The body is closed by a deferred call, registered once decoding has succeeded: it
  runs on every later return, and also when \<open>Create\<close> panics.
\<close>

definition handleCreate ::
  "JSON \<Rightarrow> 's TODOHandler \<Rightarrow> ResponseWriter \<Rightarrow> Request \<Rightarrow> 's world
     \<Rightarrow> (ResponseWriter, 's) outcome"
where
  "handleCreate J h w r \<sigma> =
     (case Decode_CreateTODORequest (Body r) of
        Inl err \<Rightarrow>
          Return (http_Error ''Invalid JSON'' StatusBadRequest w)
                 (log_Printf ''Error decoding CreateTODORequest: %v'' err \<sigma>)
      | Inr req \<Rightarrow>
          if CreateTODORequest.Subject req = [] then
            Return (http_Error ''Subject is required'' StatusBadRequest w) (Body_Close \<sigma>)
          else
            (case Create h req \<sigma> of
               Panic msg \<sigma>1 \<Rightarrow> Panic msg (Body_Close \<sigma>1)
             | Return (res, err) \<sigma>1 \<Rightarrow>
                 (case err of
                    Some e \<Rightarrow>
                      Return (http_Error ''Failed to create TODO'' StatusInternalServerError w)
                             (Body_Close \<sigma>1)
                  | None \<Rightarrow>
                      (let w1 = Header_Set ''Content-Type'' ''application/json'' w;
                           w2 = WriteHeader StatusOK w1;
                           (w3, eerr) = Encode (Marshal_CreateTODOResponse J) res w2
                       in case eerr of
                            Some e \<Rightarrow>
                              Return (http_Error ''Failed to encode JSON''
                                        StatusInternalServerError w3)
                                     (Body_Close \<sigma>1)
                          | None \<Rightarrow> Return w3 (Body_Close \<sigma>1)))))"

text \<open>\<open>Read\<close> discards both results of the service call.\<close>

definition Read ::
  "'s TODOHandler \<Rightarrow> ReadTODORequest \<Rightarrow> 's world
     \<Rightarrow> (ReadTODOResponse option \<times> error option, 's) outcome"
where
  "Read h req \<sigma> =
     (let (res, d) = ReadTODO (svc h) (db \<sigma>) 0 0
      in Return (Some \<lparr>TODOs = []\<rparr>, None) (invoke (CallReadTODO 0 0) d \<sigma>))"

definition Update ::
  "'s TODOHandler \<Rightarrow> UpdateTODORequest \<Rightarrow> 's world
     \<Rightarrow> (UpdateTODOResponse option \<times> error option, 's) outcome"
where
  "Update h req \<sigma> =
     (let ((todo, err), d) =
            UpdateTODO (svc h) (db \<sigma>) (UpdateTODORequest.ID req)
              (UpdateTODORequest.Subject req) (UpdateTODORequest.Description req);
          \<sigma>1 = invoke (CallUpdateTODO (UpdateTODORequest.ID req)
                         (UpdateTODORequest.Subject req)
                         (UpdateTODORequest.Description req)) d \<sigma>
      in case err of
           Some e \<Rightarrow> Return (None, Some e) \<sigma>1
         | None \<Rightarrow>
             (case todo of
                None \<Rightarrow> Panic nilDeref \<sigma>1
              | Some t \<Rightarrow> Return (Some \<lparr>UpdateTODOResponse.TODO = t\<rparr>, None) \<sigma>1))"

definition handleUpdate ::
  "JSON \<Rightarrow> 's TODOHandler \<Rightarrow> ResponseWriter \<Rightarrow> Request \<Rightarrow> 's world
     \<Rightarrow> (ResponseWriter, 's) outcome"
where
  "handleUpdate J h w r \<sigma> =
     (case Decode_UpdateTODORequest (Body r) of
        Inl err \<Rightarrow>
          Return (http_Error ''Invalid JSON'' StatusBadRequest w)
                 (log_Printf ''Error decoding UpdateTODORequest: %v'' err \<sigma>)
      | Inr req \<Rightarrow>
          if UpdateTODORequest.ID req = 0 \<or> UpdateTODORequest.Subject req = [] then
            Return (http_Error ''Invalid ID or Subject'' StatusBadRequest w) (Body_Close \<sigma>)
          else
            (case Update h req \<sigma> of
               Panic msg \<sigma>1 \<Rightarrow> Panic msg (Body_Close \<sigma>1)
             | Return (res, err) \<sigma>1 \<Rightarrow>
                 (case err of
                    Some ErrNotFound \<Rightarrow>
                      Return (http_Error ''TODO not found'' StatusNotFound w) (Body_Close \<sigma>1)
                  | Some e \<Rightarrow>
                      Return (http_Error ''Failed to update TODO'' StatusInternalServerError w)
                             (Body_Close (log_Printf ''Error updating TODO: %v'' e \<sigma>1))
                  | None \<Rightarrow>
                      (let w1 = Header_Set ''Content-Type'' ''application/json'' w;
                           w2 = WriteHeader StatusOK w1;
                           (w3, eerr) = Encode (Marshal_UpdateTODOResponse J) res w2
                       in case eerr of
                            Some e \<Rightarrow>
                              Return (http_Error ''Faild to encode JSON''
                                        StatusInternalServerError w3)
                                     (Body_Close \<sigma>1)
                          | None \<Rightarrow> Return w3 (Body_Close \<sigma>1)))))"

text \<open>\<open>Delete\<close> passes a nil slice and discards the service's error.\<close>

definition Delete ::
  "'s TODOHandler \<Rightarrow> DeleteTODORequest \<Rightarrow> 's world
     \<Rightarrow> (DeleteTODOResponse option \<times> error option, 's) outcome"
where
  "Delete h req \<sigma> =
     (let (err, d) = DeleteTODO (svc h) (db \<sigma>) []
      in Return (Some DeleteTODOResponse, None) (invoke (CallDeleteTODO []) d \<sigma>))"

definition ServeHTTP ::
  "JSON \<Rightarrow> 's TODOHandler \<Rightarrow> ResponseWriter \<Rightarrow> Request \<Rightarrow> 's world
     \<Rightarrow> (ResponseWriter, 's) outcome"
where
  "ServeHTTP J h w r \<sigma> =
     (if Method r = MethodPost then handleCreate J h w r \<sigma>
      else if Method r = MethodPut then handleUpdate J h w r \<sigma>
      else Return (http_Error ''Method Not Allowed'' StatusMethodNotAllowed w) \<sigma>)"

section \<open>A sample service, marshaller and request state\<close>

text \<open>
  The handlers are run at concrete inputs against a small service over a list of
  TODOs: it fails every operation while \<open>down\<close>, assigns the next ID and the
  time \<open>now\<close> on create, reports \<open>ErrNotFound\<close> for an update of an ID it does not
  hold, reads the page of at most \<open>n\<close> TODOs below \<open>prevID\<close> (from the newest
  when \<open>prevID\<close> is zero), newest first, and deletes the listed IDs.
\<close>

record store =
  todos :: "TODO list"
  down :: bool
  now :: Time

definition dbDown :: error where
  "dbDown = Err ''database is locked''"

definition mem_CreateTODO ::
  "store \<Rightarrow> string \<Rightarrow> string \<Rightarrow> (TODO option \<times> error option) \<times> store" where
  "mem_CreateTODO d subject description =
     (if down d then ((None, Some dbDown), d)
      else
        (let t = \<lparr>TODO.ID = word_of_nat (Suc (length (todos d))), Subject = subject,
                   Description = description, CreatedAt = now d, UpdatedAt = now d\<rparr>
         in ((Some t, None), d\<lparr>todos := todos d @ [t]\<rparr>)))"

definition mem_ReadTODO ::
  "store \<Rightarrow> int64 \<Rightarrow> int64 \<Rightarrow> (TODO list \<times> error option) \<times> store" where
  "mem_ReadTODO d prevID n =
     (if down d then (([], Some dbDown), d)
      else ((take (nat (sint n))
               (filter (\<lambda>t. prevID = 0 \<or> sint (TODO.ID t) < sint prevID) (rev (todos d))),
             None), d))"

definition mem_UpdateTODO ::
  "store \<Rightarrow> int64 \<Rightarrow> string \<Rightarrow> string \<Rightarrow> (TODO option \<times> error option) \<times> store" where
  "mem_UpdateTODO d i subject description =
     (if down d then ((None, Some dbDown), d)
      else
        (case find (\<lambda>t. TODO.ID t = i) (todos d) of
           None \<Rightarrow> ((None, Some ErrNotFound), d)
         | Some t \<Rightarrow>
             (let t1 = t\<lparr>TODO.Subject := subject, TODO.Description := description,
                          UpdatedAt := now d\<rparr>
              in ((Some t1, None),
                  d\<lparr>todos := map (\<lambda>x. if TODO.ID x = i then t1 else x) (todos d)\<rparr>))))"

definition mem_DeleteTODO :: "store \<Rightarrow> int64 list \<Rightarrow> error option \<times> store" where
  "mem_DeleteTODO d ids =
     (if down d then (Some dbDown, d)
      else (None, d\<lparr>todos := filter (\<lambda>t. TODO.ID t \<notin> set ids) (todos d)\<rparr>))"

definition memService :: "store TODOService" where
  "memService =
     \<lparr>CreateTODO = mem_CreateTODO, ReadTODO = mem_ReadTODO,
      UpdateTODO = mem_UpdateTODO, DeleteTODO = mem_DeleteTODO\<rparr>"

text \<open>A service that breaks the contract: it reports success and returns no TODO.\<close>

definition nilService :: "unit TODOService" where
  "nilService =
     \<lparr>CreateTODO = (\<lambda>d s ds. ((None, None), d)), ReadTODO = (\<lambda>d p n. (([], None), d)),
      UpdateTODO = (\<lambda>d i s ds. ((None, None), d)), DeleteTODO = (\<lambda>d ids. (None, d))\<rparr>"

text \<open>
  A stand-in for \<open>json.Marshal\<close>: it refuses a TODO with a negative timestamp (as
  \<open>time.Time\<close> refuses a year outside 0..9999) and otherwise prints the subject.
\<close>

definition timeRange :: error where
  "timeRange = Err ''Time.MarshalJSON: year outside of range [0,9999]''"

definition sample_Marshal_TODO :: "TODO marshaller" where
  "sample_Marshal_TODO t =
     (if CreatedAt t < 0 \<or> UpdatedAt t < 0 then Inl timeRange
      else Inr (''todo:'' @ TODO.Subject t))"

definition sampleJSON :: JSON where
  "sampleJSON =
     \<lparr>Marshal_CreateTODOResponse = (\<lambda>r. sample_Marshal_TODO (CreateTODOResponse.TODO r)),
      Marshal_UpdateTODOResponse = (\<lambda>r. sample_Marshal_TODO (UpdateTODOResponse.TODO r))\<rparr>"

definition milk :: TODO where
  "milk = \<lparr>TODO.ID = 1, Subject = ''Buy milk'', Description = [], CreatedAt = 10, UpdatedAt = 10\<rparr>"

definition eggs :: TODO where
  "eggs = \<lparr>TODO.ID = 2, Subject = ''Buy eggs'', Description = ''six'', CreatedAt = 20, UpdatedAt = 20\<rparr>"

definition store0 :: store where
  "store0 = \<lparr>todos = [milk, eggs], down = False, now = 30\<rparr>"

definition world0 :: "store \<Rightarrow> store world" where
  "world0 d = \<lparr>db = d, calls = [], logs = [], bodyClosed = False\<rparr>"

definition w0 :: ResponseWriter where
  "w0 = \<lparr>header = [], wroteHeader = False, status = 0, sentHeader = [], written = [],
         broken = False\<rparr>"

definition request :: "string \<Rightarrow> json \<Rightarrow> Request" where
  "request m v = \<lparr>Method = m, Body = Inr v\<rparr>"

text \<open>
  The contract the handlers rely on when they dereference the returned pointer: a
  create or update that reports no error returns a TODO.
\<close>

definition svcContract :: "'s TODOService \<Rightarrow> bool" where
  "svcContract S \<longleftrightarrow>
     (\<forall>d s ds. snd (fst (CreateTODO S d s ds)) = None \<longrightarrow> fst (fst (CreateTODO S d s ds)) \<noteq> None) \<and>
     (\<forall>d i s ds. snd (fst (UpdateTODO S d i s ds)) = None \<longrightarrow>
                 fst (fst (UpdateTODO S d i s ds)) \<noteq> None)"

section \<open>Facts about the response writer and the world\<close>

lemma http_Error_fresh:
  "\<not> wroteHeader w \<Longrightarrow>
     wroteHeader (http_Error msg code w) \<and> status (http_Error msg code w) = code"
  by (simp add: http_Error_def Write_def WriteHeader_def Header_Set_def Let_def)

lemma http_Error_late:
  "wroteHeader w \<Longrightarrow>
     wroteHeader (http_Error msg code w) \<and> status (http_Error msg code w) = status w"
  by (simp add: http_Error_def Write_def WriteHeader_def Header_Set_def Let_def)

lemma http_Error_written:
  "written (http_Error msg code w) =
     (if broken w then written w else written w @ msg @ [CHR 0x0A])"
  by (simp add: http_Error_def Write_def WriteHeader_def Header_Set_def Let_def)

lemma Body_Close_keeps:
  "calls (Body_Close \<sigma>) = calls \<sigma> \<and> db (Body_Close \<sigma>) = db \<sigma> \<and>
   logs (Body_Close \<sigma>) = logs \<sigma>"
  by (simp add: Body_Close_def)

lemma log_Printf_keeps:
  "calls (log_Printf fmt e \<sigma>) = calls \<sigma> \<and> db (log_Printf fmt e \<sigma>) = db \<sigma> \<and>
   logs (log_Printf fmt e \<sigma>) = logs \<sigma> @ [Printf fmt e]"
  by (simp add: log_Printf_def)

lemmas decode_eval = Decode_CreateTODORequest_def Decode_UpdateTODORequest_def
  unmarshal_CreateTODORequest_def unmarshal_UpdateTODORequest_def
  zero_CreateTODORequest_def zero_UpdateTODORequest_def keyIs_def upperASCII_def
  MinInt64_def MaxInt64_def saveError_def request_def

section \<open>Validation\<close>

text \<open>
  C1. A Create request whose decoded Subject is empty, and an Update request whose
  decoded Subject is empty or whose decoded ID is zero, is answered with status 400,
  and the service is not invoked: no call is recorded and the service's state is
  unchanged.
\<close>

theorem invalid_request_is_400:
  assumes fresh: "\<not> wroteHeader w"
  shows
    "(\<forall>req. Decode_CreateTODORequest (Body r) = Inr req \<and> CreateTODORequest.Subject req = [] \<longrightarrow>
        (\<exists>w' \<sigma>'. handleCreate J h w r \<sigma> = Return w' \<sigma>' \<and> wroteHeader w' \<and> status w' = 400 \<and>
                  calls \<sigma>' = calls \<sigma> \<and> db \<sigma>' = db \<sigma>)) \<and>
     (\<forall>req. Decode_UpdateTODORequest (Body r) = Inr req \<and>
            (UpdateTODORequest.Subject req = [] \<or> UpdateTODORequest.ID req = 0) \<longrightarrow>
        (\<exists>w' \<sigma>'. handleUpdate J h w r \<sigma> = Return w' \<sigma>' \<and> wroteHeader w' \<and> status w' = 400 \<and>
                  calls \<sigma>' = calls \<sigma> \<and> db \<sigma>' = db \<sigma>))"
proof (intro conjI allI impI)
  fix req
  assume "Decode_CreateTODORequest (Body r) = Inr req \<and> CreateTODORequest.Subject req = []"
  then have "handleCreate J h w r \<sigma> =
      Return (http_Error ''Subject is required'' StatusBadRequest w) (Body_Close \<sigma>)"
    by (simp add: handleCreate_def)
  with fresh show "\<exists>w' \<sigma>'. handleCreate J h w r \<sigma> = Return w' \<sigma>' \<and> wroteHeader w' \<and>
      status w' = 400 \<and> calls \<sigma>' = calls \<sigma> \<and> db \<sigma>' = db \<sigma>"
    by (simp add: http_Error_fresh Body_Close_keeps StatusBadRequest_def)
next
  fix req
  assume "Decode_UpdateTODORequest (Body r) = Inr req \<and>
      (UpdateTODORequest.Subject req = [] \<or> UpdateTODORequest.ID req = 0)"
  then have "handleUpdate J h w r \<sigma> =
      Return (http_Error ''Invalid ID or Subject'' StatusBadRequest w) (Body_Close \<sigma>)"
    by (auto simp add: handleUpdate_def)
  with fresh show "\<exists>w' \<sigma>'. handleUpdate J h w r \<sigma> = Return w' \<sigma>' \<and> wroteHeader w' \<and>
      status w' = 400 \<and> calls \<sigma>' = calls \<sigma> \<and> db \<sigma>' = db \<sigma>"
    by (simp add: http_Error_fresh Body_Close_keeps StatusBadRequest_def)
qed

text \<open>
  At a POST body with a description and no subject, and at the PUT body
  \<open>{"id":0,"subject":"x"}\<close> of the spec's scenario.
\<close>

theorem invalid_request_is_400_witness:
  "\<not> wroteHeader w0 \<and>
   Decode_CreateTODORequest (Body (request ''POST'' (JObject [(''description'', JString ''x'')])))
     = Inr \<lparr>CreateTODORequest.Subject = [], Description = ''x''\<rparr> \<and>
   (\<exists>w' \<sigma>'. handleCreate sampleJSON (NewTODOHandler memService) w0
        (request ''POST'' (JObject [(''description'', JString ''x'')])) (world0 store0)
          = Return w' \<sigma>' \<and>
      wroteHeader w' \<and> status w' = 400 \<and> calls \<sigma>' = [] \<and> db \<sigma>' = store0) \<and>
   Decode_UpdateTODORequest
       (Body (request ''PUT'' (JObject [(''id'', JNum 0), (''subject'', JString ''x'')])))
     = Inr \<lparr>UpdateTODORequest.ID = 0, Subject = ''x'', Description = []\<rparr> \<and>
   (\<exists>w' \<sigma>'. handleUpdate sampleJSON (NewTODOHandler memService) w0
        (request ''PUT'' (JObject [(''id'', JNum 0), (''subject'', JString ''x'')])) (world0 store0)
          = Return w' \<sigma>' \<and>
      wroteHeader w' \<and> status w' = 400 \<and> calls \<sigma>' = [] \<and> db \<sigma>' = store0)"
proof -
  let ?post = "request ''POST'' (JObject [(''description'', JString ''x'')])"
  let ?put = "request ''PUT'' (JObject [(''id'', JNum 0), (''subject'', JString ''x'')])"
  have f: "\<not> wroteHeader w0" by (simp add: w0_def)
  have c: "Decode_CreateTODORequest (Body ?post)
     = Inr \<lparr>CreateTODORequest.Subject = [], Description = ''x''\<rparr>"
    by (simp add: decode_eval)
  have u: "Decode_UpdateTODORequest (Body ?put)
     = Inr \<lparr>UpdateTODORequest.ID = 0, Subject = ''x'', Description = []\<rparr>"
    by (simp add: decode_eval)
  from invalid_request_is_400 [OF f, of ?post sampleJSON "NewTODOHandler memService"
      "world0 store0"] c
  have 1: "\<exists>w' \<sigma>'. handleCreate sampleJSON (NewTODOHandler memService) w0 ?post (world0 store0)
        = Return w' \<sigma>' \<and> wroteHeader w' \<and> status w' = 400 \<and> calls \<sigma>' = [] \<and> db \<sigma>' = store0"
    by (simp add: world0_def)
  from invalid_request_is_400 [OF f, of ?put sampleJSON "NewTODOHandler memService"
      "world0 store0"] u
  have 2: "\<exists>w' \<sigma>'. handleUpdate sampleJSON (NewTODOHandler memService) w0 ?put (world0 store0)
        = Return w' \<sigma>' \<and> wroteHeader w' \<and> status w' = 400 \<and> calls \<sigma>' = [] \<and> db \<sigma>' = store0"
    by (simp add: world0_def)
  from f c u 1 2 show ?thesis by blast
qed

section \<open>Dispatch\<close>

text \<open>
  C2. \<open>ServeHTTP\<close> hands a POST to \<open>handleCreate\<close> and a PUT to
  \<open>handleUpdate\<close>. For any other method it answers with status 405 and does
  nothing else: the world is unchanged (nothing is decoded, logged or invoked), and
  the outcome is the same whatever the body is.
\<close>

theorem dispatch_by_method:
  "(Method r = ''POST'' \<longrightarrow> ServeHTTP J h w r \<sigma> = handleCreate J h w r \<sigma>) \<and>
   (Method r = ''PUT'' \<longrightarrow> ServeHTTP J h w r \<sigma> = handleUpdate J h w r \<sigma>) \<and>
   (Method r \<noteq> ''POST'' \<and> Method r \<noteq> ''PUT'' \<and> \<not> wroteHeader w \<longrightarrow>
      (\<exists>w'. ServeHTTP J h w r \<sigma> = Return w' \<sigma> \<and> wroteHeader w' \<and> status w' = 405) \<and>
      (\<forall>b. ServeHTTP J h w (r\<lparr>Body := b\<rparr>) \<sigma> = ServeHTTP J h w r \<sigma>))"
  by (simp add: ServeHTTP_def MethodPost_def MethodPut_def http_Error_fresh
        StatusMethodNotAllowed_def)

text \<open>At a POST, a PUT and two DELETE requests with different bodies.\<close>

theorem dispatch_by_method_witness:
  "ServeHTTP sampleJSON (NewTODOHandler memService) w0
      (request ''POST'' (JObject [(''subject'', JString ''Buy milk'')])) (world0 store0)
     = handleCreate sampleJSON (NewTODOHandler memService) w0
      (request ''POST'' (JObject [(''subject'', JString ''Buy milk'')])) (world0 store0) \<and>
   ServeHTTP sampleJSON (NewTODOHandler memService) w0
      (request ''PUT'' (JObject [(''id'', JNum 1), (''subject'', JString ''Buy milk'')])) (world0 store0)
     = handleUpdate sampleJSON (NewTODOHandler memService) w0
      (request ''PUT'' (JObject [(''id'', JNum 1), (''subject'', JString ''Buy milk'')])) (world0 store0) \<and>
   (\<exists>w'. ServeHTTP sampleJSON (NewTODOHandler memService) w0
      (request ''DELETE'' (JObject [(''subject'', JString ''Buy milk'')])) (world0 store0)
        = Return w' (world0 store0) \<and> wroteHeader w' \<and> status w' = 405) \<and>
   ServeHTTP sampleJSON (NewTODOHandler memService) w0
      (request ''DELETE'' (JObject [(''subject'', JString ''Buy milk'')])) (world0 store0)
     = ServeHTTP sampleJSON (NewTODOHandler memService) w0
      (request ''DELETE'' (JArray [])) (world0 store0)"
proof -
  let ?J = sampleJSON and ?h = "NewTODOHandler memService" and ?s = "world0 store0"
  let ?post = "request ''POST'' (JObject [(''subject'', JString ''Buy milk'')])"
  let ?put = "request ''PUT'' (JObject [(''id'', JNum 1), (''subject'', JString ''Buy milk'')])"
  let ?del = "request ''DELETE'' (JObject [(''subject'', JString ''Buy milk'')])"
  have 1: "ServeHTTP ?J ?h w0 ?post ?s = handleCreate ?J ?h w0 ?post ?s"
    using dispatch_by_method [of ?post ?J ?h w0 ?s] by (simp add: request_def)
  have 2: "ServeHTTP ?J ?h w0 ?put ?s = handleUpdate ?J ?h w0 ?put ?s"
    using dispatch_by_method [of ?put ?J ?h w0 ?s] by (simp add: request_def)
  have 3: "(\<exists>w'. ServeHTTP ?J ?h w0 ?del ?s = Return w' ?s \<and> wroteHeader w' \<and> status w' = 405) \<and>
      (\<forall>b. ServeHTTP ?J ?h w0 (?del\<lparr>Body := b\<rparr>) ?s = ServeHTTP ?J ?h w0 ?del ?s)"
    using dispatch_by_method [of ?del ?J ?h w0 ?s] by (simp add: request_def w0_def)
  then have 4: "ServeHTTP ?J ?h w0 (?del\<lparr>Body := Inr (JArray [])\<rparr>) ?s = ServeHTTP ?J ?h w0 ?del ?s"
    by blast
  have 5: "?del\<lparr>Body := Inr (JArray [])\<rparr> = request ''DELETE'' (JArray [])"
    by (simp add: request_def)
  from 1 2 3 4 5 show ?thesis by simp
qed

section \<open>Decoding failures\<close>

text \<open>
  C6. When decoding the body into the operation's request fails, \<open>handleCreate\<close>
  and \<open>handleUpdate\<close> answer with status 400, print one log line carrying the
  decoder's error, and do not invoke the service.
\<close>

theorem decode_failure_is_400:
  assumes fresh: "\<not> wroteHeader w"
  shows
    "(\<forall>e. Decode_CreateTODORequest (Body r) = Inl e \<longrightarrow>
        (\<exists>w' \<sigma>'. handleCreate J h w r \<sigma> = Return w' \<sigma>' \<and> wroteHeader w' \<and> status w' = 400 \<and>
           logs \<sigma>' = logs \<sigma> @ [Printf ''Error decoding CreateTODORequest: %v'' e] \<and>
           calls \<sigma>' = calls \<sigma> \<and> db \<sigma>' = db \<sigma>)) \<and>
     (\<forall>e. Decode_UpdateTODORequest (Body r) = Inl e \<longrightarrow>
        (\<exists>w' \<sigma>'. handleUpdate J h w r \<sigma> = Return w' \<sigma>' \<and> wroteHeader w' \<and> status w' = 400 \<and>
           logs \<sigma>' = logs \<sigma> @ [Printf ''Error decoding UpdateTODORequest: %v'' e] \<and>
           calls \<sigma>' = calls \<sigma> \<and> db \<sigma>' = db \<sigma>))"
  using fresh
  by (simp add: handleCreate_def handleUpdate_def http_Error_fresh log_Printf_keeps
        StatusBadRequest_def)

text \<open>
  At a POST whose body ends early, and at a PUT whose \<open>id\<close> is a JSON string.
\<close>

theorem decode_failure_is_400_witness:
  "\<not> wroteHeader w0 \<and>
   Decode_CreateTODORequest (Body \<lparr>Method = ''POST'', Body = Inl (Err ''unexpected EOF'')\<rparr>)
     = Inl (Err ''unexpected EOF'') \<and>
   (\<exists>w' \<sigma>'. handleCreate sampleJSON (NewTODOHandler memService) w0
        \<lparr>Method = ''POST'', Body = Inl (Err ''unexpected EOF'')\<rparr> (world0 store0) = Return w' \<sigma>' \<and>
      wroteHeader w' \<and> status w' = 400 \<and>
      logs \<sigma>' = [Printf ''Error decoding CreateTODORequest: %v'' (Err ''unexpected EOF'')] \<and>
      calls \<sigma>' = [] \<and> db \<sigma>' = store0) \<and>
   Decode_UpdateTODORequest
       (Body (request ''PUT'' (JObject [(''id'', JString ''7''), (''subject'', JString ''x'')])))
     = Inl (UnmarshalTypeError ''string'' ''int64'' ''UpdateTODORequest'' ''id'') \<and>
   (\<exists>w' \<sigma>'. handleUpdate sampleJSON (NewTODOHandler memService) w0
        (request ''PUT'' (JObject [(''id'', JString ''7''), (''subject'', JString ''x'')]))
        (world0 store0) = Return w' \<sigma>' \<and>
      wroteHeader w' \<and> status w' = 400 \<and>
      logs \<sigma>' = [Printf ''Error decoding UpdateTODORequest: %v''
                   (UnmarshalTypeError ''string'' ''int64'' ''UpdateTODORequest'' ''id'')] \<and>
      calls \<sigma>' = [] \<and> db \<sigma>' = store0)"
proof -
  let ?J = sampleJSON and ?h = "NewTODOHandler memService" and ?s = "world0 store0"
  let ?post = "\<lparr>Method = ''POST'', Body = Inl (Err ''unexpected EOF'')\<rparr>"
  let ?put = "request ''PUT'' (JObject [(''id'', JString ''7''), (''subject'', JString ''x'')])"
  let ?te = "UnmarshalTypeError ''string'' ''int64'' ''UpdateTODORequest'' ''id''"
  have f: "\<not> wroteHeader w0" by (simp add: w0_def)
  have c: "Decode_CreateTODORequest (Body ?post) = Inl (Err ''unexpected EOF'')"
    by (simp add: decode_eval)
  have u: "Decode_UpdateTODORequest (Body ?put) = Inl ?te"
    by (simp add: decode_eval)
  from decode_failure_is_400 [OF f, of ?post ?J ?h ?s] c
  have 1: "\<exists>w' \<sigma>'. handleCreate ?J ?h w0 ?post ?s = Return w' \<sigma>' \<and> wroteHeader w' \<and>
      status w' = 400 \<and>
      logs \<sigma>' = [Printf ''Error decoding CreateTODORequest: %v'' (Err ''unexpected EOF'')] \<and>
      calls \<sigma>' = [] \<and> db \<sigma>' = store0"
    by (simp add: world0_def)
  from decode_failure_is_400 [OF f, of ?put ?J ?h ?s] u
  have 2: "\<exists>w' \<sigma>'. handleUpdate ?J ?h w0 ?put ?s = Return w' \<sigma>' \<and> wroteHeader w' \<and>
      status w' = 400 \<and> logs \<sigma>' = [Printf ''Error decoding UpdateTODORequest: %v'' ?te] \<and>
      calls \<sigma>' = [] \<and> db \<sigma>' = store0"
    by (simp add: world0_def)
  from f c u 1 2 show ?thesis by blast
qed

section \<open>Service errors\<close>

lemma Create_error:
  "CreateTODO (svc h) (db \<sigma>) (CreateTODORequest.Subject req) (CreateTODORequest.Description req)
      = ((t, Some e), d) \<Longrightarrow>
   Create h req \<sigma> = Return (None, Some e)
      (invoke (CallCreateTODO (CreateTODORequest.Subject req) (CreateTODORequest.Description req)) d \<sigma>)"
  by (simp add: Create_def)

lemma Create_ok:
  "CreateTODO (svc h) (db \<sigma>) (CreateTODORequest.Subject req) (CreateTODORequest.Description req)
      = ((Some t, None), d) \<Longrightarrow>
   Create h req \<sigma> = Return (Some \<lparr>CreateTODOResponse.TODO = t\<rparr>, None)
      (invoke (CallCreateTODO (CreateTODORequest.Subject req) (CreateTODORequest.Description req)) d \<sigma>)"
  by (simp add: Create_def)

lemma Update_error:
  "UpdateTODO (svc h) (db \<sigma>) (UpdateTODORequest.ID req) (UpdateTODORequest.Subject req)
      (UpdateTODORequest.Description req) = ((t, Some e), d) \<Longrightarrow>
   Update h req \<sigma> = Return (None, Some e)
      (invoke (CallUpdateTODO (UpdateTODORequest.ID req) (UpdateTODORequest.Subject req)
         (UpdateTODORequest.Description req)) d \<sigma>)"
  by (simp add: Update_def)

lemma Update_ok:
  "UpdateTODO (svc h) (db \<sigma>) (UpdateTODORequest.ID req) (UpdateTODORequest.Subject req)
      (UpdateTODORequest.Description req) = ((Some t, None), d) \<Longrightarrow>
   Update h req \<sigma> = Return (Some \<lparr>UpdateTODOResponse.TODO = t\<rparr>, None)
      (invoke (CallUpdateTODO (UpdateTODORequest.ID req) (UpdateTODORequest.Subject req)
         (UpdateTODORequest.Description req)) d \<sigma>)"
  by (simp add: Update_def)

lemma invoke_keeps:
  "calls (invoke c d \<sigma>) = calls \<sigma> @ [c] \<and> db (invoke c d \<sigma>) = d \<and>
   logs (invoke c d \<sigma>) = logs \<sigma>"
  by (simp add: invoke_def)

text \<open>
  C3. For an Update request that passes validation: when the service's update returns
  an error of type \<open>ErrNotFound\<close> the answer has status 404; when it returns any
  other error the answer has status 500 and the error is logged. For a Create request
  that passes validation, any service error gives status 500. In both 500 cases the
  response is \<open>http.Error\<close> of a fixed text: nothing of the error reaches the
  client.
\<close>

theorem service_error_is_404_or_500:
  assumes fresh: "\<not> wroteHeader w"
  shows
    "(\<forall>req t e d.
        Decode_UpdateTODORequest (Body r) = Inr req \<and> UpdateTODORequest.ID req \<noteq> 0 \<and>
        UpdateTODORequest.Subject req \<noteq> [] \<and>
        UpdateTODO (svc h) (db \<sigma>) (UpdateTODORequest.ID req) (UpdateTODORequest.Subject req)
          (UpdateTODORequest.Description req) = ((t, Some e), d) \<longrightarrow>
        (\<exists>w' \<sigma>'. handleUpdate J h w r \<sigma> = Return w' \<sigma>' \<and> wroteHeader w' \<and>
           (e = ErrNotFound \<longrightarrow> status w' = 404) \<and>
           (e \<noteq> ErrNotFound \<longrightarrow>
              status w' = 500 \<and>
              logs \<sigma>' = logs \<sigma> @ [Printf ''Error updating TODO: %v'' e] \<and>
              w' = http_Error ''Failed to update TODO'' 500 w \<and>
              written w' = written w @
                (if broken w then [] else ''Failed to update TODO'' @ [CHR 0x0A])))) \<and>
     (\<forall>req t e d.
        Decode_CreateTODORequest (Body r) = Inr req \<and> CreateTODORequest.Subject req \<noteq> [] \<and>
        CreateTODO (svc h) (db \<sigma>) (CreateTODORequest.Subject req)
          (CreateTODORequest.Description req) = ((t, Some e), d) \<longrightarrow>
        (\<exists>w' \<sigma>'. handleCreate J h w r \<sigma> = Return w' \<sigma>' \<and> wroteHeader w' \<and>
           status w' = 500 \<and>
           w' = http_Error ''Failed to create TODO'' 500 w \<and>
           written w' = written w @
             (if broken w then [] else ''Failed to create TODO'' @ [CHR 0x0A])))"
proof (intro conjI allI impI)
  fix req t e d
  assume a: "Decode_UpdateTODORequest (Body r) = Inr req \<and> UpdateTODORequest.ID req \<noteq> 0 \<and>
        UpdateTODORequest.Subject req \<noteq> [] \<and>
        UpdateTODO (svc h) (db \<sigma>) (UpdateTODORequest.ID req) (UpdateTODORequest.Subject req)
          (UpdateTODORequest.Description req) = ((t, Some e), d)"
  let ?c = "CallUpdateTODO (UpdateTODORequest.ID req) (UpdateTODORequest.Subject req)
         (UpdateTODORequest.Description req)"
  from a have u: "Update h req \<sigma> = Return (None, Some e) (invoke ?c d \<sigma>)"
    by (simp add: Update_error)
  show "\<exists>w' \<sigma>'. handleUpdate J h w r \<sigma> = Return w' \<sigma>' \<and> wroteHeader w' \<and>
           (e = ErrNotFound \<longrightarrow> status w' = 404) \<and>
           (e \<noteq> ErrNotFound \<longrightarrow>
              status w' = 500 \<and>
              logs \<sigma>' = logs \<sigma> @ [Printf ''Error updating TODO: %v'' e] \<and>
              w' = http_Error ''Failed to update TODO'' 500 w \<and>
              written w' = written w @
                (if broken w then [] else ''Failed to update TODO'' @ [CHR 0x0A]))"
  proof (cases "e = ErrNotFound")
    case True
    with a u have "handleUpdate J h w r \<sigma> =
        Return (http_Error ''TODO not found'' StatusNotFound w) (Body_Close (invoke ?c d \<sigma>))"
      by (simp add: handleUpdate_def)
    with True fresh show ?thesis
      by (simp add: http_Error_fresh StatusNotFound_def)
  next
    case False
    with a u have "handleUpdate J h w r \<sigma> =
        Return (http_Error ''Failed to update TODO'' StatusInternalServerError w)
          (Body_Close (log_Printf ''Error updating TODO: %v'' e (invoke ?c d \<sigma>)))"
      by (simp add: handleUpdate_def split: error.splits)
    with False fresh show ?thesis
      by (simp add: http_Error_fresh http_Error_written StatusInternalServerError_def
            Body_Close_keeps log_Printf_keeps invoke_keeps)
  qed
next
  fix req t e d
  assume a: "Decode_CreateTODORequest (Body r) = Inr req \<and> CreateTODORequest.Subject req \<noteq> [] \<and>
        CreateTODO (svc h) (db \<sigma>) (CreateTODORequest.Subject req)
          (CreateTODORequest.Description req) = ((t, Some e), d)"
  let ?c = "CallCreateTODO (CreateTODORequest.Subject req) (CreateTODORequest.Description req)"
  from a have "Create h req \<sigma> = Return (None, Some e) (invoke ?c d \<sigma>)"
    by (simp add: Create_error)
  with a have "handleCreate J h w r \<sigma> =
      Return (http_Error ''Failed to create TODO'' StatusInternalServerError w)
        (Body_Close (invoke ?c d \<sigma>))"
    by (simp add: handleCreate_def)
  with fresh show "\<exists>w' \<sigma>'. handleCreate J h w r \<sigma> = Return w' \<sigma>' \<and> wroteHeader w' \<and>
           status w' = 500 \<and>
           w' = http_Error ''Failed to create TODO'' 500 w \<and>
           written w' = written w @
             (if broken w then [] else ''Failed to create TODO'' @ [CHR 0x0A])"
    by (simp add: http_Error_fresh http_Error_written StatusInternalServerError_def)
qed

lemmas mem_eval = NewTODOHandler_def memService_def mem_CreateTODO_def mem_UpdateTODO_def
  mem_ReadTODO_def mem_DeleteTODO_def store0_def world0_def milk_def eggs_def dbDown_def

text \<open>
  At the spec's scenario PUT \<open>{"id":999,"subject":"x"}\<close> on a store without ID
  999, and at a PUT and a POST on a store that is down.
\<close>

theorem service_error_is_404_or_500_witness:
  "\<not> wroteHeader w0 \<and>
   (\<exists>w' \<sigma>'. handleUpdate sampleJSON (NewTODOHandler memService) w0
        (request ''PUT'' (JObject [(''id'', JNum 999), (''subject'', JString ''x'')]))
        (world0 store0) = Return w' \<sigma>' \<and> wroteHeader w' \<and> status w' = 404) \<and>
   (\<exists>w' \<sigma>'. handleUpdate sampleJSON (NewTODOHandler memService) w0
        (request ''PUT'' (JObject [(''id'', JNum 1), (''subject'', JString ''x'')]))
        (world0 (store0\<lparr>down := True\<rparr>)) = Return w' \<sigma>' \<and> wroteHeader w' \<and> status w' = 500 \<and>
        logs \<sigma>' = [Printf ''Error updating TODO: %v'' (Err ''database is locked'')] \<and>
        written w' = ''Failed to update TODO'' @ [CHR 0x0A]) \<and>
   (\<exists>w' \<sigma>'. handleCreate sampleJSON (NewTODOHandler memService) w0
        (request ''POST'' (JObject [(''subject'', JString ''x'')]))
        (world0 (store0\<lparr>down := True\<rparr>)) = Return w' \<sigma>' \<and> wroteHeader w' \<and> status w' = 500 \<and>
        written w' = ''Failed to create TODO'' @ [CHR 0x0A])"
proof -
  let ?J = sampleJSON and ?h = "NewTODOHandler memService"
  let ?up = "world0 store0" and ?dn = "world0 (store0\<lparr>down := True\<rparr>)"
  let ?put999 = "request ''PUT'' (JObject [(''id'', JNum 999), (''subject'', JString ''x'')])"
  let ?put1 = "request ''PUT'' (JObject [(''id'', JNum 1), (''subject'', JString ''x'')])"
  let ?post = "request ''POST'' (JObject [(''subject'', JString ''x'')])"
  have f: "\<not> wroteHeader w0" by (simp add: w0_def)
  have wf: "written w0 = [] \<and> \<not> broken w0" by (simp add: w0_def)
  have lf: "logs ?dn = []" by (simp add: world0_def)
  have d999: "Decode_UpdateTODORequest (Body ?put999)
      = Inr \<lparr>UpdateTODORequest.ID = 999, Subject = ''x'', Description = []\<rparr>"
    by (simp add: decode_eval)
  have d1: "Decode_UpdateTODORequest (Body ?put1)
      = Inr \<lparr>UpdateTODORequest.ID = 1, Subject = ''x'', Description = []\<rparr>"
    by (simp add: decode_eval)
  have dp: "Decode_CreateTODORequest (Body ?post)
      = Inr \<lparr>CreateTODORequest.Subject = ''x'', Description = []\<rparr>"
    by (simp add: decode_eval)
  have s999: "UpdateTODO (svc ?h) (db ?up) 999 ''x'' [] = ((None, Some ErrNotFound), store0)"
    by (simp add: mem_eval)
  have s1: "UpdateTODO (svc ?h) (db ?dn) 1 ''x'' []
      = ((None, Some (Err ''database is locked'')), store0\<lparr>down := True\<rparr>)"
    by (simp add: mem_eval)
  have sp: "CreateTODO (svc ?h) (db ?dn) ''x'' []
      = ((None, Some (Err ''database is locked'')), store0\<lparr>down := True\<rparr>)"
    by (simp add: mem_eval)
  from service_error_is_404_or_500 [OF f, of ?put999 ?h ?up ?J] d999 s999
  have 1: "\<exists>w' \<sigma>'. handleUpdate ?J ?h w0 ?put999 ?up = Return w' \<sigma>' \<and> wroteHeader w' \<and>
      status w' = 404"
    by auto
  from service_error_is_404_or_500 [OF f, of ?put1 ?h ?dn ?J] d1 s1
  have 2: "\<exists>w' \<sigma>'. handleUpdate ?J ?h w0 ?put1 ?dn = Return w' \<sigma>' \<and> wroteHeader w' \<and>
      status w' = 500 \<and>
      logs \<sigma>' = [Printf ''Error updating TODO: %v'' (Err ''database is locked'')] \<and>
      written w' = ''Failed to update TODO'' @ [CHR 0x0A]"
    by (auto simp add: wf lf)
  from service_error_is_404_or_500 [OF f, of ?post ?h ?dn ?J] dp sp
  have 3: "\<exists>w' \<sigma>'. handleCreate ?J ?h w0 ?post ?dn = Return w' \<sigma>' \<and> wroteHeader w' \<and>
      status w' = 500 \<and> written w' = ''Failed to create TODO'' @ [CHR 0x0A]"
    by (auto simp add: wf)
  from f 1 2 3 show ?thesis by blast
qed


section \<open>The success path\<close>

lemma Encode_status:
  "wroteHeader w \<Longrightarrow> wroteHeader (fst (Encode m p w)) \<and> status (fst (Encode m p w)) = status w"
  by (simp add: Encode_def Write_def Let_def split: sum.splits)

lemma Encode_written:
  "wroteHeader w \<Longrightarrow> marshalPtr m p = Inr bs \<Longrightarrow> \<not> broken w \<Longrightarrow>
     Encode m p w = (w\<lparr>written := written w @ bs @ [CHR 0x0A]\<rparr>, None)"
  by (simp add: Encode_def Write_def Let_def)

lemma success_path_status:
  assumes "\<not> wroteHeader w"
  shows "wroteHeader (WriteHeader StatusOK (Header_Set k v w)) \<and>
         status (WriteHeader StatusOK (Header_Set k v w)) = 200 \<and>
         written (WriteHeader StatusOK (Header_Set k v w)) = written w \<and>
         broken (WriteHeader StatusOK (Header_Set k v w)) = broken w"
  using assms by (simp add: WriteHeader_def Header_Set_def StatusOK_def)

lemma handleCreate_success:
  assumes dec: "Decode_CreateTODORequest (Body r) = Inr req"
    and sub: "CreateTODORequest.Subject req \<noteq> []"
    and cr: "Create h req \<sigma> = Return (Some resp, None) \<sigma>1"
  shows "handleCreate J h w r \<sigma> =
     (let w2 = WriteHeader StatusOK (Header_Set ''Content-Type'' ''application/json'' w);
          en = Encode (Marshal_CreateTODOResponse J) (Some resp) w2
      in Return (case snd en of
                   Some e \<Rightarrow> http_Error ''Failed to encode JSON'' StatusInternalServerError (fst en)
                 | None \<Rightarrow> fst en)
           (Body_Close \<sigma>1))"
  using dec sub cr
  by (simp add: handleCreate_def Let_def split: prod.splits option.splits)

lemma handleUpdate_success:
  assumes dec: "Decode_UpdateTODORequest (Body r) = Inr req"
    and idn: "UpdateTODORequest.ID req \<noteq> 0"
    and sub: "UpdateTODORequest.Subject req \<noteq> []"
    and up: "Update h req \<sigma> = Return (Some resp, None) \<sigma>1"
  shows "handleUpdate J h w r \<sigma> =
     (let w2 = WriteHeader StatusOK (Header_Set ''Content-Type'' ''application/json'' w);
          en = Encode (Marshal_UpdateTODOResponse J) (Some resp) w2
      in Return (case snd en of
                   Some e \<Rightarrow> http_Error ''Faild to encode JSON'' StatusInternalServerError (fst en)
                 | None \<Rightarrow> fst en)
           (Body_Close \<sigma>1))"
  using dec idn sub up
  by (simp add: handleUpdate_def Let_def split: prod.splits option.splits)

text \<open>
  C7. For a Create request that passes validation and for which the service returns a
  TODO and no error, \<open>Create\<close> returns a response whose TODO is the service's TODO
  (so its ID and timestamps are the service's, and its Subject and Description are
  the request's whenever the service echoes them), and \<open>handleCreate\<close> answers
  with status 200 after exactly one service call; when marshalling succeeds and the
  connection is sound the body written is the marshalled response and a newline.
\<close>

theorem create_success_is_200:
  assumes fresh: "\<not> wroteHeader w"
  shows
    "\<forall>req t d.
        Decode_CreateTODORequest (Body r) = Inr req \<and> CreateTODORequest.Subject req \<noteq> [] \<and>
        CreateTODO (svc h) (db \<sigma>) (CreateTODORequest.Subject req)
          (CreateTODORequest.Description req) = ((Some t, None), d) \<longrightarrow>
        (\<exists>resp \<sigma>1. Create h req \<sigma> = Return (Some resp, None) \<sigma>1 \<and>
            CreateTODOResponse.TODO resp = t \<and>
            (TODO.Subject t = CreateTODORequest.Subject req \<and>
             TODO.Description t = CreateTODORequest.Description req \<longrightarrow>
               TODO.Subject (CreateTODOResponse.TODO resp) = CreateTODORequest.Subject req \<and>
               TODO.Description (CreateTODOResponse.TODO resp)
                 = CreateTODORequest.Description req) \<and>
            (\<exists>w' \<sigma>'. handleCreate J h w r \<sigma> = Return w' \<sigma>' \<and> wroteHeader w' \<and>
                status w' = 200 \<and>
                calls \<sigma>' = calls \<sigma> @ [CallCreateTODO (CreateTODORequest.Subject req)
                                        (CreateTODORequest.Description req)] \<and>
                db \<sigma>' = d \<and>
                (\<forall>bs. Marshal_CreateTODOResponse J resp = Inr bs \<and> \<not> broken w \<longrightarrow>
                      written w' = written w @ bs @ [CHR 0x0A])))"
proof (intro allI impI)
  fix req t d
  assume a: "Decode_CreateTODORequest (Body r) = Inr req \<and> CreateTODORequest.Subject req \<noteq> [] \<and>
        CreateTODO (svc h) (db \<sigma>) (CreateTODORequest.Subject req)
          (CreateTODORequest.Description req) = ((Some t, None), d)"
  let ?c = "CallCreateTODO (CreateTODORequest.Subject req) (CreateTODORequest.Description req)"
  let ?resp = "\<lparr>CreateTODOResponse.TODO = t\<rparr>"
  let ?w2 = "WriteHeader StatusOK (Header_Set ''Content-Type'' ''application/json'' w)"
  let ?en = "Encode (Marshal_CreateTODOResponse J) (Some ?resp) ?w2"
  let ?w' = "case snd ?en of
               Some e \<Rightarrow> http_Error ''Failed to encode JSON'' StatusInternalServerError (fst ?en)
             | None \<Rightarrow> fst ?en"
  from a have cr: "Create h req \<sigma> = Return (Some ?resp, None) (invoke ?c d \<sigma>)"
    by (simp add: Create_ok)
  from a cr have hc: "handleCreate J h w r \<sigma> = Return ?w' (Body_Close (invoke ?c d \<sigma>))"
    by (simp add: handleCreate_success Let_def)
  have w2: "wroteHeader ?w2 \<and> status ?w2 = 200 \<and> written ?w2 = written w \<and> broken ?w2 = broken w"
    using fresh by (rule success_path_status)
  then have en: "wroteHeader (fst ?en) \<and> status (fst ?en) = 200"
    by (simp add: Encode_status)
  then have st: "wroteHeader ?w' \<and> status ?w' = 200"
    by (simp add: http_Error_late split: option.splits)
  have wr: "\<forall>bs. Marshal_CreateTODOResponse J ?resp = Inr bs \<and> \<not> broken w \<longrightarrow>
      written ?w' = written w @ bs @ [CHR 0x0A]"
  proof (intro allI impI)
    fix bs
    assume m: "Marshal_CreateTODOResponse J ?resp = Inr bs \<and> \<not> broken w"
    then have "marshalPtr (Marshal_CreateTODOResponse J) (Some ?resp) = Inr bs"
      by (simp add: marshalPtr_def)
    with w2 m have "?en = (?w2\<lparr>written := written ?w2 @ bs @ [CHR 0x0A]\<rparr>, None)"
      by (simp add: Encode_written)
    with w2 show "written ?w' = written w @ bs @ [CHR 0x0A]"
      by simp
  qed
  have "Create h req \<sigma> = Return (Some ?resp, None) (invoke ?c d \<sigma>) \<and>
      CreateTODOResponse.TODO ?resp = t \<and>
      (TODO.Subject t = CreateTODORequest.Subject req \<and>
       TODO.Description t = CreateTODORequest.Description req \<longrightarrow>
         TODO.Subject (CreateTODOResponse.TODO ?resp) = CreateTODORequest.Subject req \<and>
         TODO.Description (CreateTODOResponse.TODO ?resp) = CreateTODORequest.Description req) \<and>
      (handleCreate J h w r \<sigma> = Return ?w' (Body_Close (invoke ?c d \<sigma>)) \<and> wroteHeader ?w' \<and>
          status ?w' = 200 \<and>
          calls (Body_Close (invoke ?c d \<sigma>)) = calls \<sigma> @ [?c] \<and>
          db (Body_Close (invoke ?c d \<sigma>)) = d \<and>
          (\<forall>bs. Marshal_CreateTODOResponse J ?resp = Inr bs \<and> \<not> broken w \<longrightarrow>
                written ?w' = written w @ bs @ [CHR 0x0A]))"
    using cr hc st wr by (simp add: Body_Close_keeps invoke_keeps)
  then show "\<exists>resp \<sigma>1. Create h req \<sigma> = Return (Some resp, None) \<sigma>1 \<and>
            CreateTODOResponse.TODO resp = t \<and>
            (TODO.Subject t = CreateTODORequest.Subject req \<and>
             TODO.Description t = CreateTODORequest.Description req \<longrightarrow>
               TODO.Subject (CreateTODOResponse.TODO resp) = CreateTODORequest.Subject req \<and>
               TODO.Description (CreateTODOResponse.TODO resp)
                 = CreateTODORequest.Description req) \<and>
            (\<exists>w' \<sigma>'. handleCreate J h w r \<sigma> = Return w' \<sigma>' \<and> wroteHeader w' \<and>
                status w' = 200 \<and>
                calls \<sigma>' = calls \<sigma> @ [CallCreateTODO (CreateTODORequest.Subject req)
                                        (CreateTODORequest.Description req)] \<and>
                db \<sigma>' = d \<and>
                (\<forall>bs. Marshal_CreateTODOResponse J resp = Inr bs \<and> \<not> broken w \<longrightarrow>
                      written w' = written w @ bs @ [CHR 0x0A]))"
    by blast
qed

text \<open>
  At the spec's scenario POST \<open>{"subject":"Buy milk","description":""}\<close> on an
  empty store: the TODO gets ID 1.
\<close>

theorem create_success_is_200_witness:
  "\<not> wroteHeader w0 \<and>
   (\<exists>resp \<sigma>1. Create (NewTODOHandler memService)
        \<lparr>CreateTODORequest.Subject = ''Buy milk'', Description = []\<rparr>
        (world0 (store0\<lparr>todos := []\<rparr>)) = Return (Some resp, None) \<sigma>1 \<and>
      CreateTODOResponse.TODO resp
        = \<lparr>TODO.ID = 1, Subject = ''Buy milk'', Description = [], CreatedAt = 30,
           UpdatedAt = 30\<rparr>) \<and>
   (\<exists>w' \<sigma>'. handleCreate sampleJSON (NewTODOHandler memService) w0
        (request ''POST'' (JObject [(''subject'', JString ''Buy milk''),
                                    (''description'', JString [])]))
        (world0 (store0\<lparr>todos := []\<rparr>)) = Return w' \<sigma>' \<and>
      wroteHeader w' \<and> status w' = 200 \<and> calls \<sigma>' = [CallCreateTODO ''Buy milk'' []] \<and>
      written w' = ''todo:Buy milk'' @ [CHR 0x0A])"
proof -
  let ?J = sampleJSON and ?h = "NewTODOHandler memService"
  let ?s = "world0 (store0\<lparr>todos := []\<rparr>)"
  let ?post = "request ''POST'' (JObject [(''subject'', JString ''Buy milk''),
                                    (''description'', JString [])])"
  let ?req = "\<lparr>CreateTODORequest.Subject = ''Buy milk'', Description = []\<rparr>"
  let ?t = "\<lparr>TODO.ID = 1, Subject = ''Buy milk'', Description = [], CreatedAt = 30,
           UpdatedAt = 30\<rparr>"
  let ?d = "store0\<lparr>todos := [?t]\<rparr>"
  have f: "\<not> wroteHeader w0" by (simp add: w0_def)
  have wf: "written w0 = [] \<and> \<not> broken w0" by (simp add: w0_def)
  have cf: "calls ?s = []" by (simp add: world0_def)
  have dec: "Decode_CreateTODORequest (Body ?post) = Inr ?req"
    by (simp add: decode_eval)
  have sv: "CreateTODO (svc ?h) (db ?s) (CreateTODORequest.Subject ?req)
      (CreateTODORequest.Description ?req) = ((Some ?t, None), ?d)"
    by (simp add: mem_eval Let_def)
  have m: "\<And>resp. CreateTODOResponse.TODO resp = ?t \<Longrightarrow>
      Marshal_CreateTODOResponse ?J resp = Inr ''todo:Buy milk''"
    by (simp add: sampleJSON_def sample_Marshal_TODO_def)
  have pre: "Decode_CreateTODORequest (Body ?post) = Inr ?req \<and>
      CreateTODORequest.Subject ?req \<noteq> [] \<and>
      CreateTODO (svc ?h) (db ?s) (CreateTODORequest.Subject ?req)
        (CreateTODORequest.Description ?req) = ((Some ?t, None), ?d)"
    using dec sv by simp
  from create_success_is_200 [OF f, of ?post ?h ?s ?J, rule_format, OF pre]
  obtain resp \<sigma>1 w' \<sigma>' where
    1: "Create ?h ?req ?s = Return (Some resp, None) \<sigma>1"
    and 2: "CreateTODOResponse.TODO resp = ?t"
    and 3: "handleCreate ?J ?h w0 ?post ?s = Return w' \<sigma>'"
    and 4: "wroteHeader w' \<and> status w' = 200"
    and 5: "calls \<sigma>' = calls ?s @ [CallCreateTODO (CreateTODORequest.Subject ?req)
                                        (CreateTODORequest.Description ?req)]"
    and 6: "\<forall>bs. Marshal_CreateTODOResponse ?J resp = Inr bs \<and> \<not> broken w0 \<longrightarrow>
                      written w' = written w0 @ bs @ [CHR 0x0A]"
    by blast
  from 6 m [OF 2] wf have 7: "written w' = ''todo:Buy milk'' @ [CHR 0x0A]"
    by simp
  from 5 cf have 8: "calls \<sigma>' = [CallCreateTODO ''Buy milk'' []]"
    by simp
  from f 1 2 3 4 7 8 show ?thesis by blast
qed

section \<open>A failing encoder\<close>

text \<open>
  When marshalling the response fails, \<open>http.Error\<close> is called with 500 after
  \<open>WriteHeader(StatusOK)\<close> has fixed the status: the response keeps status 200 and
  carries the error text as its body.
\<close>

lemma Encode_marshal_error:
  "marshalPtr m p = Inl e \<Longrightarrow> Encode m p w = (w, Some e)"
  by (simp add: Encode_def)

lemma handleCreate_marshal_error:
  assumes fresh: "\<not> wroteHeader w"
    and dec: "Decode_CreateTODORequest (Body r) = Inr req"
    and sub: "CreateTODORequest.Subject req \<noteq> []"
    and sv: "CreateTODO (svc h) (db \<sigma>) (CreateTODORequest.Subject req)
          (CreateTODORequest.Description req) = ((Some t, None), d)"
    and me: "Marshal_CreateTODOResponse J \<lparr>CreateTODOResponse.TODO = t\<rparr> = Inl e"
  shows "\<exists>w' \<sigma>'. handleCreate J h w r \<sigma> = Return w' \<sigma>' \<and> status w' = 200 \<and>
           written w' = written w @ (if broken w then [] else ''Failed to encode JSON'' @ [CHR 0x0A])"
proof -
  let ?c = "CallCreateTODO (CreateTODORequest.Subject req) (CreateTODORequest.Description req)"
  let ?resp = "\<lparr>CreateTODOResponse.TODO = t\<rparr>"
  let ?w2 = "WriteHeader StatusOK (Header_Set ''Content-Type'' ''application/json'' w)"
  from sv have cr: "Create h req \<sigma> = Return (Some ?resp, None) (invoke ?c d \<sigma>)"
    by (simp add: Create_ok)
  from me have "Encode (Marshal_CreateTODOResponse J) (Some ?resp) ?w2 = (?w2, Some e)"
    by (simp add: Encode_marshal_error marshalPtr_def)
  with dec sub cr have hc: "handleCreate J h w r \<sigma> =
      Return (http_Error ''Failed to encode JSON'' StatusInternalServerError ?w2)
        (Body_Close (invoke ?c d \<sigma>))"
    by (simp add: handleCreate_success Let_def)
  have w2: "wroteHeader ?w2 \<and> status ?w2 = 200 \<and> written ?w2 = written w \<and> broken ?w2 = broken w"
    using fresh by (rule success_path_status)
  with hc show ?thesis
    by (simp add: http_Error_late http_Error_written)
qed

lemma handleUpdate_marshal_error:
  assumes fresh: "\<not> wroteHeader w"
    and dec: "Decode_UpdateTODORequest (Body r) = Inr req"
    and idn: "UpdateTODORequest.ID req \<noteq> 0"
    and sub: "UpdateTODORequest.Subject req \<noteq> []"
    and sv: "UpdateTODO (svc h) (db \<sigma>) (UpdateTODORequest.ID req) (UpdateTODORequest.Subject req)
          (UpdateTODORequest.Description req) = ((Some t, None), d)"
    and me: "Marshal_UpdateTODOResponse J \<lparr>UpdateTODOResponse.TODO = t\<rparr> = Inl e"
  shows "\<exists>w' \<sigma>'. handleUpdate J h w r \<sigma> = Return w' \<sigma>' \<and> status w' = 200 \<and>
           written w' = written w @ (if broken w then [] else ''Faild to encode JSON'' @ [CHR 0x0A])"
proof -
  let ?c = "CallUpdateTODO (UpdateTODORequest.ID req) (UpdateTODORequest.Subject req)
         (UpdateTODORequest.Description req)"
  let ?resp = "\<lparr>UpdateTODOResponse.TODO = t\<rparr>"
  let ?w2 = "WriteHeader StatusOK (Header_Set ''Content-Type'' ''application/json'' w)"
  from sv have cr: "Update h req \<sigma> = Return (Some ?resp, None) (invoke ?c d \<sigma>)"
    by (simp add: Update_ok)
  from me have "Encode (Marshal_UpdateTODOResponse J) (Some ?resp) ?w2 = (?w2, Some e)"
    by (simp add: Encode_marshal_error marshalPtr_def)
  with dec idn sub cr have hc: "handleUpdate J h w r \<sigma> =
      Return (http_Error ''Faild to encode JSON'' StatusInternalServerError ?w2)
        (Body_Close (invoke ?c d \<sigma>))"
    by (simp add: handleUpdate_success Let_def)
  have w2: "wroteHeader ?w2 \<and> status ?w2 = 200 \<and> written ?w2 = written w \<and> broken ?w2 = broken w"
    using fresh by (rule success_path_status)
  with hc show ?thesis
    by (simp add: http_Error_late http_Error_written)
qed

lemmas http_eval = http_Error_def Write_def WriteHeader_def Header_Set_def Encode_def
  marshalPtr_def Let_def StatusOK_def StatusBadRequest_def StatusNotFound_def
  StatusInternalServerError_def StatusMethodNotAllowed_def w0_def
  sampleJSON_def sample_Marshal_TODO_def timeRange_def

lemmas run_eval = handleCreate_def handleUpdate_def Create_def Update_def Read_def Delete_def
  invoke_def log_Printf_def Body_Close_def

text \<open>
  C8. The spec has a failure to encode the success response answered with status 500.
  Run on a store whose clock makes the new timestamps unmarshallable, a valid POST and
  a valid PUT both reach the encoder, the encoder fails, and the response that leaves
  has status 200 (with the header \<open>application/json\<close> already sent) and the
  body of \<open>http.Error\<close>.
\<close>

theorem encode_failure_keeps_status_200:
  "handleCreate sampleJSON (NewTODOHandler memService) w0
      (request ''POST'' (JObject [(''subject'', JString ''Buy milk'')]))
      (world0 (store0\<lparr>todos := [], now := - 1\<rparr>))
    = Return
        \<lparr>header = [(''Content-Type'', ''text/plain; charset=utf-8''),
                   (''X-Content-Type-Options'', ''nosniff'')],
          wroteHeader = True, status = 200,
          sentHeader = [(''Content-Type'', ''application/json'')],
          written = ''Failed to encode JSON'' @ [CHR 0x0A], broken = False\<rparr>
        \<lparr>db = store0\<lparr>todos := [\<lparr>TODO.ID = 1, Subject = ''Buy milk'', Description = [],
                                     CreatedAt = - 1, UpdatedAt = - 1\<rparr>], now := - 1\<rparr>,
          calls = [CallCreateTODO ''Buy milk'' []], logs = [], bodyClosed = True\<rparr> \<and>
   handleUpdate sampleJSON (NewTODOHandler memService) w0
      (request ''PUT'' (JObject [(''id'', JNum 1), (''subject'', JString ''Buy oat milk'')]))
      (world0 (store0\<lparr>todos := [milk], now := - 1\<rparr>))
    = Return
        \<lparr>header = [(''Content-Type'', ''text/plain; charset=utf-8''),
                   (''X-Content-Type-Options'', ''nosniff'')],
          wroteHeader = True, status = 200,
          sentHeader = [(''Content-Type'', ''application/json'')],
          written = ''Faild to encode JSON'' @ [CHR 0x0A], broken = False\<rparr>
        \<lparr>db = store0\<lparr>todos := [\<lparr>TODO.ID = 1, Subject = ''Buy oat milk'', Description = [],
                                     CreatedAt = 10, UpdatedAt = - 1\<rparr>], now := - 1\<rparr>,
          calls = [CallUpdateTODO 1 ''Buy oat milk'' []], logs = [], bodyClosed = True\<rparr>"
  by (simp add: run_eval decode_eval mem_eval http_eval)

section \<open>Read and Delete\<close>

text \<open>
  C4. The spec has \<open>Read\<close> call the service with the request's PrevID and
  Size, wrap the TODOs it returns and propagate its error. Run with PrevID 2 and
  Size 1 on a store of two TODOs, \<open>Read\<close> calls \<open>ReadTODO\<close> with 0 and 0 and
  returns an empty response, while the service's page for (2, 1) holds one TODO; on a
  store that is down it returns the same empty response and a nil error, while the
  service's call fails.
\<close>

theorem Read_ignores_request_and_result:
  "Read (NewTODOHandler memService) \<lparr>PrevID = 2, Size = 1\<rparr> (world0 store0)
     = Return (Some \<lparr>TODOs = []\<rparr>, None)
         \<lparr>db = store0, calls = [CallReadTODO 0 0], logs = [], bodyClosed = False\<rparr> \<and>
   ReadTODO memService store0 2 1 = (([milk], None), store0) \<and>
   Read (NewTODOHandler memService) \<lparr>PrevID = 2, Size = 1\<rparr> (world0 (store0\<lparr>down := True\<rparr>))
     = Return (Some \<lparr>TODOs = []\<rparr>, None)
         \<lparr>db = store0\<lparr>down := True\<rparr>, calls = [CallReadTODO 0 0], logs = [],
          bodyClosed = False\<rparr> \<and>
   ReadTODO memService (store0\<lparr>down := True\<rparr>) 0 0
     = (([], Some (Err ''database is locked'')), store0\<lparr>down := True\<rparr>)"
  by (simp add: run_eval mem_eval)

text \<open>
  C5. The spec has \<open>Delete\<close> call the service with the request's IDs and
  propagate its error. Run with the IDs [1], \<open>Delete\<close> calls \<open>DeleteTODO\<close>
  with no IDs and the store keeps TODO 1, which the service would delete when given
  [1]; on a store that is down it returns a nil error, while the service's call fails.
\<close>

theorem Delete_ignores_request_and_error:
  "Delete (NewTODOHandler memService) \<lparr>IDs = [1]\<rparr> (world0 store0)
     = Return (Some DeleteTODOResponse, None)
         \<lparr>db = store0, calls = [CallDeleteTODO []], logs = [], bodyClosed = False\<rparr> \<and>
   DeleteTODO memService store0 [1] = (None, store0\<lparr>todos := [eggs]\<rparr>) \<and>
   Delete (NewTODOHandler memService) \<lparr>IDs = [1]\<rparr> (world0 (store0\<lparr>down := True\<rparr>))
     = Return (Some DeleteTODOResponse, None)
         \<lparr>db = store0\<lparr>down := True\<rparr>, calls = [CallDeleteTODO []], logs = [],
          bodyClosed = False\<rparr> \<and>
   DeleteTODO memService (store0\<lparr>down := True\<rparr>) []
     = (Some (Err ''database is locked''), store0\<lparr>down := True\<rparr>)"
  by (simp add: run_eval mem_eval)

text \<open>For every service, request and world, not only the ones above.\<close>

lemma Read_any:
  "Read h req \<sigma> = Return (Some \<lparr>TODOs = []\<rparr>, None)
     (invoke (CallReadTODO 0 0) (snd (ReadTODO (svc h) (db \<sigma>) 0 0)) \<sigma>)"
  by (simp add: Read_def split: prod.splits)

lemma Delete_any:
  "Delete h req \<sigma> = Return (Some DeleteTODOResponse, None)
     (invoke (CallDeleteTODO []) (snd (DeleteTODO (svc h) (db \<sigma>) [])) \<sigma>)"
  by (simp add: Delete_def split: prod.splits)

section \<open>Panics\<close>

lemma Create_no_panic:
  assumes "svcContract (svc h)"
  shows "\<not> panicked (Create h req \<sigma>)"
proof -
  obtain t e d where eq: "CreateTODO (svc h) (db \<sigma>) (CreateTODORequest.Subject req)
      (CreateTODORequest.Description req) = ((t, e), d)"
    by (metis surj_pair)
  from assms have "snd (fst (CreateTODO (svc h) (db \<sigma>) (CreateTODORequest.Subject req)
      (CreateTODORequest.Description req))) = None \<longrightarrow>
    fst (fst (CreateTODO (svc h) (db \<sigma>) (CreateTODORequest.Subject req)
      (CreateTODORequest.Description req))) \<noteq> None"
    unfolding svcContract_def by blast
  with eq have "e = None \<longrightarrow> t \<noteq> None" by simp
  with eq show ?thesis
    by (auto simp add: Create_def Let_def split: option.splits)
qed

lemma Update_no_panic:
  assumes "svcContract (svc h)"
  shows "\<not> panicked (Update h req \<sigma>)"
proof -
  obtain t e d where eq: "UpdateTODO (svc h) (db \<sigma>) (UpdateTODORequest.ID req)
      (UpdateTODORequest.Subject req) (UpdateTODORequest.Description req) = ((t, e), d)"
    by (metis surj_pair)
  from assms have "snd (fst (UpdateTODO (svc h) (db \<sigma>) (UpdateTODORequest.ID req)
      (UpdateTODORequest.Subject req) (UpdateTODORequest.Description req))) = None \<longrightarrow>
    fst (fst (UpdateTODO (svc h) (db \<sigma>) (UpdateTODORequest.ID req)
      (UpdateTODORequest.Subject req) (UpdateTODORequest.Description req))) \<noteq> None"
    unfolding svcContract_def by blast
  with eq have "e = None \<longrightarrow> t \<noteq> None" by simp
  with eq show ?thesis
    by (auto simp add: Update_def Let_def split: option.splits)
qed

lemma handleCreate_no_panic:
  assumes "svcContract (svc h)"
  shows "\<not> panicked (handleCreate J h w r \<sigma>)"
proof (cases "Decode_CreateTODORequest (Body r)")
  case (Inl e)
  then show ?thesis by (simp add: handleCreate_def)
next
  case (Inr req)
  from assms have "\<not> panicked (Create h req \<sigma>)" by (rule Create_no_panic)
  then obtain x \<sigma>1 where "Create h req \<sigma> = Return x \<sigma>1"
    by (cases "Create h req \<sigma>") simp_all
  with Inr show ?thesis
    by (simp add: handleCreate_def Let_def split: prod.splits option.splits)
qed

lemma handleUpdate_no_panic:
  assumes "svcContract (svc h)"
  shows "\<not> panicked (handleUpdate J h w r \<sigma>)"
proof (cases "Decode_UpdateTODORequest (Body r)")
  case (Inl e)
  then show ?thesis by (simp add: handleUpdate_def)
next
  case (Inr req)
  from assms have "\<not> panicked (Update h req \<sigma>)" by (rule Update_no_panic)
  then obtain x \<sigma>1 where "Update h req \<sigma> = Return x \<sigma>1"
    by (cases "Update h req \<sigma>") simp_all
  with Inr show ?thesis
    by (simp add: handleUpdate_def Let_def split: prod.splits option.splits error.splits)
qed

text \<open>
  C9. If the service keeps the contract (a create or update that reports no error
  returns a TODO), then no request, whatever the service answers, makes
  \<open>ServeHTTP\<close> panic, and neither \<open>Create\<close>, \<open>Update\<close>, \<open>Read\<close> nor
  \<open>Delete\<close> panics.
\<close>

theorem no_panic_under_contract:
  assumes "svcContract (svc h)"
  shows "\<not> panicked (ServeHTTP J h w r \<sigma>) \<and>
         \<not> panicked (Create h creq \<sigma>) \<and> \<not> panicked (Update h ureq \<sigma>) \<and>
         \<not> panicked (Read h rreq \<sigma>) \<and> \<not> panicked (Delete h dreq \<sigma>)"
  using assms
  by (simp add: ServeHTTP_def handleCreate_no_panic handleUpdate_no_panic Create_no_panic
        Update_no_panic Read_any Delete_any)

text \<open>The sample service keeps the contract.\<close>

lemma memService_contract: "svcContract (svc (NewTODOHandler memService))"
  by (simp add: svcContract_def mem_eval Let_def split: option.splits)

text \<open>
  At a POST that succeeds, a PUT of an unknown ID and a PUT on a store that is down.
\<close>

theorem no_panic_under_contract_witness:
  "svcContract (svc (NewTODOHandler memService)) \<and>
   \<not> panicked (ServeHTTP sampleJSON (NewTODOHandler memService) w0
        (request ''POST'' (JObject [(''subject'', JString ''Buy milk'')])) (world0 store0)) \<and>
   \<not> panicked (ServeHTTP sampleJSON (NewTODOHandler memService) w0
        (request ''PUT'' (JObject [(''id'', JNum 999), (''subject'', JString ''x'')]))
        (world0 store0)) \<and>
   \<not> panicked (ServeHTTP sampleJSON (NewTODOHandler memService) w0
        (request ''PUT'' (JObject [(''id'', JNum 1), (''subject'', JString ''x'')]))
        (world0 (store0\<lparr>down := True\<rparr>)))"
  using memService_contract
    no_panic_under_contract [OF memService_contract, of sampleJSON w0
      "request ''POST'' (JObject [(''subject'', JString ''Buy milk'')])" "world0 store0"]
    no_panic_under_contract [OF memService_contract, of sampleJSON w0
      "request ''PUT'' (JObject [(''id'', JNum 999), (''subject'', JString ''x'')])"
      "world0 store0"]
    no_panic_under_contract [OF memService_contract, of sampleJSON w0
      "request ''PUT'' (JObject [(''id'', JNum 1), (''subject'', JString ''x'')])"
      "world0 (store0\<lparr>down := True\<rparr>)"]
  by blast

text \<open>Without the contract the dereference in \<open>Create\<close> does panic.\<close>

lemma contract_is_needed:
  "panicked (ServeHTTP sampleJSON (NewTODOHandler nilService) w0
      (request ''POST'' (JObject [(''subject'', JString ''Buy milk'')]))
      \<lparr>db = (), calls = [], logs = [], bodyClosed = False\<rparr>)"
  by (simp add: ServeHTTP_def MethodPost_def run_eval decode_eval NewTODOHandler_def
        nilService_def)

section \<open>Absent fields\<close>

lemma object_Create_no_description:
  "\<forall>m\<in>set ms. \<not> keyIs ''description'' (fst m) \<Longrightarrow>
     CreateTODORequest.Description (fst (object_CreateTODORequest ms (req, saved)))
       = CreateTODORequest.Description req"
proof (induction ms arbitrary: req saved)
  case Nil
  then show ?case by simp
next
  case (Cons m ms)
  obtain k v where m: "m = (k, v)" by (cases m)
  from Cons.prems have rest: "\<forall>m\<in>set ms. \<not> keyIs ''description'' (fst m)"
    and here: "\<not> keyIs ''description'' k"
    using m by simp_all
  from here show ?case
    by (simp add: m Cons.IH [OF rest] split: sum.splits)
qed

lemma object_Create_no_subject:
  "\<forall>m\<in>set ms. \<not> keyIs ''subject'' (fst m) \<Longrightarrow>
     CreateTODORequest.Subject (fst (object_CreateTODORequest ms (req, saved)))
       = CreateTODORequest.Subject req"
proof (induction ms arbitrary: req saved)
  case Nil
  then show ?case by simp
next
  case (Cons m ms)
  obtain k v where m: "m = (k, v)" by (cases m)
  from Cons.prems have rest: "\<forall>m\<in>set ms. \<not> keyIs ''subject'' (fst m)"
    and here: "\<not> keyIs ''subject'' k"
    using m by simp_all
  from here show ?case
    by (simp add: m Cons.IH [OF rest] split: sum.splits)
qed

lemma object_Update_no_description:
  "\<forall>m\<in>set ms. \<not> keyIs ''description'' (fst m) \<Longrightarrow>
     UpdateTODORequest.Description (fst (object_UpdateTODORequest ms (req, saved)))
       = UpdateTODORequest.Description req"
proof (induction ms arbitrary: req saved)
  case Nil
  then show ?case by simp
next
  case (Cons m ms)
  obtain k v where m: "m = (k, v)" by (cases m)
  from Cons.prems have rest: "\<forall>m\<in>set ms. \<not> keyIs ''description'' (fst m)"
    and here: "\<not> keyIs ''description'' k"
    using m by simp_all
  from here show ?case
    by (simp add: m Cons.IH [OF rest] split: sum.splits)
qed

lemma storeString_ok:
  "stringOrNull v \<Longrightarrow> \<exists>s. storeString st f v old = Inr s"
  by (cases v) simp_all

lemma object_Create_no_error:
  "\<forall>m\<in>set ms. stringOrNull (snd m) \<Longrightarrow>
     snd (object_CreateTODORequest ms (req, saved)) = saved"
proof (induction ms arbitrary: req saved)
  case Nil
  then show ?case by simp
next
  case (Cons m ms)
  obtain k v where m: "m = (k, v)" by (cases m)
  from Cons.prems have rest: "\<forall>m\<in>set ms. stringOrNull (snd m)" and here: "stringOrNull v"
    using m by simp_all
  from storeString_ok [OF here] obtain s1 where
    s1: "storeString ''CreateTODORequest'' ''subject'' v (CreateTODORequest.Subject req) = Inr s1"
    by blast
  from storeString_ok [OF here] obtain s2 where
    s2: "storeString ''CreateTODORequest'' ''description'' v
           (CreateTODORequest.Description req) = Inr s2"
    by blast
  show ?case
    by (simp add: m s1 s2 Cons.IH [OF rest])
qed

lemma object_Update_no_id:
  "\<forall>m\<in>set ms. \<not> keyIs ''id'' (fst m) \<Longrightarrow>
     UpdateTODORequest.ID (fst (object_UpdateTODORequest ms (req, saved)))
       = UpdateTODORequest.ID req"
proof (induction ms arbitrary: req saved)
  case Nil
  then show ?case by simp
next
  case (Cons m ms)
  obtain k v where m: "m = (k, v)" by (cases m)
  from Cons.prems have rest: "\<forall>m\<in>set ms. \<not> keyIs ''id'' (fst m)"
    and here: "\<not> keyIs ''id'' k"
    using m by simp_all
  from here show ?case
    by (simp add: m Cons.IH [OF rest] split: sum.splits)
qed

lemma object_Update_no_subject:
  "\<forall>m\<in>set ms. \<not> keyIs ''subject'' (fst m) \<Longrightarrow>
     UpdateTODORequest.Subject (fst (object_UpdateTODORequest ms (req, saved)))
       = UpdateTODORequest.Subject req"
proof (induction ms arbitrary: req saved)
  case Nil
  then show ?case by simp
next
  case (Cons m ms)
  obtain k v where m: "m = (k, v)" by (cases m)
  from Cons.prems have rest: "\<forall>m\<in>set ms. \<not> keyIs ''subject'' (fst m)"
    and here: "\<not> keyIs ''subject'' k"
    using m by simp_all
  from here show ?case
    by (simp add: m Cons.IH [OF rest] split: sum.splits)
qed

lemma storeInt64_ok:
  "int64OrNull v \<Longrightarrow> \<exists>n. storeInt64 st f v old = Inr n"
  by (cases v) simp_all

lemma object_Create_fits:
  "\<forall>m\<in>set ms. fits_CreateTODORequest m \<Longrightarrow>
     snd (object_CreateTODORequest ms (req, saved)) = saved"
proof (induction ms arbitrary: req saved)
  case Nil
  then show ?case by simp
next
  case (Cons m ms)
  obtain k v where m: "m = (k, v)" by (cases m)
  from Cons.prems have rest: "\<forall>m\<in>set ms. fits_CreateTODORequest m"
    and here: "fits_CreateTODORequest (k, v)"
    using m by simp_all
  show ?case
  proof (cases "keyIs ''subject'' k \<or> keyIs ''description'' k")
    case True
    with here have sv: "stringOrNull v" by (simp add: fits_CreateTODORequest_def)
    from storeString_ok [OF sv] obtain s1 where
      s1: "storeString ''CreateTODORequest'' ''subject'' v (CreateTODORequest.Subject req)
             = Inr s1"
      by blast
    from storeString_ok [OF sv] obtain s2 where
      s2: "storeString ''CreateTODORequest'' ''description'' v
             (CreateTODORequest.Description req) = Inr s2"
      by blast
    show ?thesis
      by (simp add: m s1 s2 Cons.IH [OF rest])
  next
    case False
    then show ?thesis
      by (simp add: m Cons.IH [OF rest])
  qed
qed

lemma object_Update_fits:
  "\<forall>m\<in>set ms. fits_UpdateTODORequest m \<Longrightarrow>
     snd (object_UpdateTODORequest ms (req, saved)) = saved"
proof (induction ms arbitrary: req saved)
  case Nil
  then show ?case by simp
next
  case (Cons m ms)
  obtain k v where m: "m = (k, v)" by (cases m)
  from Cons.prems have rest: "\<forall>m\<in>set ms. fits_UpdateTODORequest m"
    and here: "fits_UpdateTODORequest (k, v)"
    using m by simp_all
  show ?case
  proof (cases "keyIs ''id'' k")
    case True
    with here have iv: "int64OrNull v" by (simp add: fits_UpdateTODORequest_def)
    from storeInt64_ok [OF iv] obtain n where
      "storeInt64 ''UpdateTODORequest'' ''id'' v (UpdateTODORequest.ID req) = Inr n"
      by blast
    with True show ?thesis
      by (simp add: m Cons.IH [OF rest])
  next
    case noid: False
    show ?thesis
    proof (cases "keyIs ''subject'' k \<or> keyIs ''description'' k")
      case True
      with here noid have sv: "stringOrNull v" by (simp add: fits_UpdateTODORequest_def)
      from storeString_ok [OF sv] obtain s1 where
        s1: "storeString ''UpdateTODORequest'' ''subject'' v (UpdateTODORequest.Subject req)
               = Inr s1"
        by blast
      from storeString_ok [OF sv] obtain s2 where
        s2: "storeString ''UpdateTODORequest'' ''description'' v
               (UpdateTODORequest.Description req) = Inr s2"
        by blast
      from noid show ?thesis
        by (simp add: m s1 s2 Cons.IH [OF rest])
    next
      case False
      with noid show ?thesis
        by (simp add: m Cons.IH [OF rest])
    qed
  qed
qed

lemma unmarshal_Create_object:
  "unmarshal_CreateTODORequest (JObject ms) = Inr req \<Longrightarrow>
     req = fst (object_CreateTODORequest ms (zero_CreateTODORequest, None))"
  by (simp add: unmarshal_CreateTODORequest_def split: prod.splits option.splits)

lemma unmarshal_Update_object:
  "unmarshal_UpdateTODORequest (JObject ms) = Inr req \<Longrightarrow>
     req = fst (object_UpdateTODORequest ms (zero_UpdateTODORequest, None))"
  by (simp add: unmarshal_UpdateTODORequest_def split: prod.splits option.splits)

lemma handleCreate_calls:
  assumes dec: "Decode_CreateTODORequest (Body r) = Inr req"
    and sub: "CreateTODORequest.Subject req \<noteq> []"
  shows "calls (worldOf (handleCreate J h w r \<sigma>))
     = calls \<sigma> @ [CallCreateTODO (CreateTODORequest.Subject req)
                   (CreateTODORequest.Description req)]"
  using dec sub
  by (simp add: handleCreate_def Create_def Let_def invoke_def Body_Close_def
        split: prod.splits option.splits)

lemma handleUpdate_calls:
  assumes dec: "Decode_UpdateTODORequest (Body r) = Inr req"
    and idn: "UpdateTODORequest.ID req \<noteq> 0"
    and sub: "UpdateTODORequest.Subject req \<noteq> []"
  shows "calls (worldOf (handleUpdate J h w r \<sigma>))
     = calls \<sigma> @ [CallUpdateTODO (UpdateTODORequest.ID req) (UpdateTODORequest.Subject req)
                   (UpdateTODORequest.Description req)]"
  using dec idn sub
  by (simp add: handleUpdate_def Update_def Let_def invoke_def Body_Close_def log_Printf_def
        split: prod.splits option.splits error.splits)

text \<open>
  C10. A field absent from a JSON object is no decode error and keeps its zero value,
  in both request structs. No error: an object decodes into a \<open>CreateTODORequest\<close>
  (an \<open>UpdateTODORequest\<close>) whenever every member fits the struct, that is, selects
  no field or carries a value its field accepts, whichever fields are missing; so does
  an object all of whose members are strings or \<open>null\<close> into a
  \<open>CreateTODORequest\<close>, and so does the empty object. Zero value: a decoded
  \<open>CreateTODORequest\<close> has an empty Subject (Description) when no member's key
  selects that field, and a decoded \<open>UpdateTODORequest\<close> has ID 0 (an empty
  Subject, an empty Description) when no member's key selects that field. So the body
  \<open>{"subject": s}\<close> decodes to Subject \<open>s\<close> and an empty Description (in a PUT,
  also to ID 0), the bodies \<open>{"id": i}\<close> and \<open>{"id": i, "subject": s}\<close> decode
  to that ID with the other fields empty, and for non-empty \<open>s\<close> \<open>handleCreate\<close>
  invokes the service with \<open>s\<close> and the empty Description. Validation looks at
  Subject (Create) and at ID and Subject (Update) only: whenever these are non-empty
  and non-zero the service is invoked with the decoded fields, whatever the
  Description is.
\<close>

theorem absent_fields_are_zero_and_unchecked:
  "(\<forall>ms. (\<forall>m\<in>set ms. stringOrNull (snd m)) \<longrightarrow>
        (\<exists>req. unmarshal_CreateTODORequest (JObject ms) = Inr req)) \<and>
   (\<forall>ms req. unmarshal_CreateTODORequest (JObject ms) = Inr req \<and>
        (\<forall>m\<in>set ms. \<not> keyIs ''description'' (fst m)) \<longrightarrow>
        CreateTODORequest.Description req = []) \<and>
   (\<forall>ms req. unmarshal_CreateTODORequest (JObject ms) = Inr req \<and>
        (\<forall>m\<in>set ms. \<not> keyIs ''subject'' (fst m)) \<longrightarrow>
        CreateTODORequest.Subject req = []) \<and>
   (\<forall>ms req. unmarshal_UpdateTODORequest (JObject ms) = Inr req \<and>
        (\<forall>m\<in>set ms. \<not> keyIs ''description'' (fst m)) \<longrightarrow>
        UpdateTODORequest.Description req = []) \<and>
   (\<forall>s. Decode_CreateTODORequest (Inr (JObject [(''subject'', JString s)]))
        = Inr \<lparr>CreateTODORequest.Subject = s, Description = []\<rparr>) \<and>
   (\<forall>s. s \<noteq> [] \<and> Body r = Inr (JObject [(''subject'', JString s)]) \<longrightarrow>
        calls (worldOf (handleCreate J h w r \<sigma>)) = calls \<sigma> @ [CallCreateTODO s []]) \<and>
   (\<forall>req. Decode_CreateTODORequest (Body r) = Inr req \<and> CreateTODORequest.Subject req \<noteq> [] \<longrightarrow>
        calls (worldOf (handleCreate J h w r \<sigma>))
          = calls \<sigma> @ [CallCreateTODO (CreateTODORequest.Subject req)
                        (CreateTODORequest.Description req)]) \<and>
   (\<forall>req. Decode_UpdateTODORequest (Body r) = Inr req \<and> UpdateTODORequest.ID req \<noteq> 0 \<and>
        UpdateTODORequest.Subject req \<noteq> [] \<longrightarrow>
        calls (worldOf (handleUpdate J h w r \<sigma>))
          = calls \<sigma> @ [CallUpdateTODO (UpdateTODORequest.ID req) (UpdateTODORequest.Subject req)
                        (UpdateTODORequest.Description req)]) \<and>
   (\<forall>ms req. unmarshal_UpdateTODORequest (JObject ms) = Inr req \<and>
        (\<forall>m\<in>set ms. \<not> keyIs ''id'' (fst m)) \<longrightarrow>
        UpdateTODORequest.ID req = 0) \<and>
   (\<forall>ms req. unmarshal_UpdateTODORequest (JObject ms) = Inr req \<and>
        (\<forall>m\<in>set ms. \<not> keyIs ''subject'' (fst m)) \<longrightarrow>
        UpdateTODORequest.Subject req = []) \<and>
   (\<forall>ms. (\<forall>m\<in>set ms. fits_CreateTODORequest m) \<longrightarrow>
        (\<exists>req. unmarshal_CreateTODORequest (JObject ms) = Inr req)) \<and>
   (\<forall>ms. (\<forall>m\<in>set ms. fits_UpdateTODORequest m) \<longrightarrow>
        (\<exists>req. unmarshal_UpdateTODORequest (JObject ms) = Inr req)) \<and>
   Decode_CreateTODORequest (Inr (JObject []))
     = Inr \<lparr>CreateTODORequest.Subject = [], Description = []\<rparr> \<and>
   Decode_UpdateTODORequest (Inr (JObject []))
     = Inr \<lparr>UpdateTODORequest.ID = 0, Subject = [], Description = []\<rparr> \<and>
   (\<forall>s. Decode_UpdateTODORequest (Inr (JObject [(''subject'', JString s)]))
        = Inr \<lparr>UpdateTODORequest.ID = 0, Subject = s, Description = []\<rparr>) \<and>
   (\<forall>i. MinInt64 \<le> i \<and> i \<le> MaxInt64 \<longrightarrow>
        Decode_UpdateTODORequest (Inr (JObject [(''id'', JNum i)]))
          = Inr \<lparr>UpdateTODORequest.ID = word_of_int i, Subject = [], Description = []\<rparr>) \<and>
   (\<forall>i s. MinInt64 \<le> i \<and> i \<le> MaxInt64 \<longrightarrow>
        Decode_UpdateTODORequest (Inr (JObject [(''id'', JNum i), (''subject'', JString s)]))
          = Inr \<lparr>UpdateTODORequest.ID = word_of_int i, Subject = s, Description = []\<rparr>)"
proof (intro conjI allI impI)
  fix ms :: "(string \<times> json) list"
  assume a: "\<forall>m\<in>set ms. stringOrNull (snd m)"
  have "snd (object_CreateTODORequest ms (zero_CreateTODORequest, None)) = None"
    using a by (rule object_Create_no_error)
  then show "\<exists>req. unmarshal_CreateTODORequest (JObject ms) = Inr req"
    by (auto simp add: unmarshal_CreateTODORequest_def split: prod.splits)
next
  fix ms req
  assume a: "unmarshal_CreateTODORequest (JObject ms) = Inr req \<and>
        (\<forall>m\<in>set ms. \<not> keyIs ''description'' (fst m))"
  then have "req = fst (object_CreateTODORequest ms (zero_CreateTODORequest, None))"
    by (simp add: unmarshal_Create_object)
  with a show "CreateTODORequest.Description req = []"
    by (simp add: object_Create_no_description zero_CreateTODORequest_def)
next
  fix ms req
  assume a: "unmarshal_CreateTODORequest (JObject ms) = Inr req \<and>
        (\<forall>m\<in>set ms. \<not> keyIs ''subject'' (fst m))"
  then have "req = fst (object_CreateTODORequest ms (zero_CreateTODORequest, None))"
    by (simp add: unmarshal_Create_object)
  with a show "CreateTODORequest.Subject req = []"
    by (simp add: object_Create_no_subject zero_CreateTODORequest_def)
next
  fix ms req
  assume a: "unmarshal_UpdateTODORequest (JObject ms) = Inr req \<and>
        (\<forall>m\<in>set ms. \<not> keyIs ''description'' (fst m))"
  then have "req = fst (object_UpdateTODORequest ms (zero_UpdateTODORequest, None))"
    by (simp add: unmarshal_Update_object)
  with a show "UpdateTODORequest.Description req = []"
    by (simp add: object_Update_no_description zero_UpdateTODORequest_def)
next
  fix s
  show "Decode_CreateTODORequest (Inr (JObject [(''subject'', JString s)]))
        = Inr \<lparr>CreateTODORequest.Subject = s, Description = []\<rparr>"
    by (simp add: decode_eval)
next
  fix s
  assume a: "s \<noteq> [] \<and> Body r = Inr (JObject [(''subject'', JString s)])"
  then have "Decode_CreateTODORequest (Body r)
      = Inr \<lparr>CreateTODORequest.Subject = s, Description = []\<rparr>"
    by (simp add: decode_eval)
  from handleCreate_calls [OF this] a
  show "calls (worldOf (handleCreate J h w r \<sigma>)) = calls \<sigma> @ [CallCreateTODO s []]"
    by simp
next
  fix req
  assume "Decode_CreateTODORequest (Body r) = Inr req \<and> CreateTODORequest.Subject req \<noteq> []"
  then show "calls (worldOf (handleCreate J h w r \<sigma>))
          = calls \<sigma> @ [CallCreateTODO (CreateTODORequest.Subject req)
                        (CreateTODORequest.Description req)]"
    by (simp add: handleCreate_calls)
next
  fix req
  assume "Decode_UpdateTODORequest (Body r) = Inr req \<and> UpdateTODORequest.ID req \<noteq> 0 \<and>
        UpdateTODORequest.Subject req \<noteq> []"
  then show "calls (worldOf (handleUpdate J h w r \<sigma>))
          = calls \<sigma> @ [CallUpdateTODO (UpdateTODORequest.ID req) (UpdateTODORequest.Subject req)
                        (UpdateTODORequest.Description req)]"
    by (simp add: handleUpdate_calls)
next
  fix ms req
  assume a: "unmarshal_UpdateTODORequest (JObject ms) = Inr req \<and>
        (\<forall>m\<in>set ms. \<not> keyIs ''id'' (fst m))"
  then have "req = fst (object_UpdateTODORequest ms (zero_UpdateTODORequest, None))"
    by (simp add: unmarshal_Update_object)
  with a show "UpdateTODORequest.ID req = 0"
    by (simp add: object_Update_no_id zero_UpdateTODORequest_def)
next
  fix ms req
  assume a: "unmarshal_UpdateTODORequest (JObject ms) = Inr req \<and>
        (\<forall>m\<in>set ms. \<not> keyIs ''subject'' (fst m))"
  then have "req = fst (object_UpdateTODORequest ms (zero_UpdateTODORequest, None))"
    by (simp add: unmarshal_Update_object)
  with a show "UpdateTODORequest.Subject req = []"
    by (simp add: object_Update_no_subject zero_UpdateTODORequest_def)
next
  fix ms :: "(string \<times> json) list"
  assume a: "\<forall>m\<in>set ms. fits_CreateTODORequest m"
  have "snd (object_CreateTODORequest ms (zero_CreateTODORequest, None)) = None"
    using a by (rule object_Create_fits)
  then show "\<exists>req. unmarshal_CreateTODORequest (JObject ms) = Inr req"
    by (auto simp add: unmarshal_CreateTODORequest_def split: prod.splits)
next
  fix ms :: "(string \<times> json) list"
  assume a: "\<forall>m\<in>set ms. fits_UpdateTODORequest m"
  have "snd (object_UpdateTODORequest ms (zero_UpdateTODORequest, None)) = None"
    using a by (rule object_Update_fits)
  then show "\<exists>req. unmarshal_UpdateTODORequest (JObject ms) = Inr req"
    by (auto simp add: unmarshal_UpdateTODORequest_def split: prod.splits)
next
  show "Decode_CreateTODORequest (Inr (JObject []))
     = Inr \<lparr>CreateTODORequest.Subject = [], Description = []\<rparr>"
    by (simp add: decode_eval)
next
  show "Decode_UpdateTODORequest (Inr (JObject []))
     = Inr \<lparr>UpdateTODORequest.ID = 0, Subject = [], Description = []\<rparr>"
    by (simp add: decode_eval)
next
  fix s
  show "Decode_UpdateTODORequest (Inr (JObject [(''subject'', JString s)]))
        = Inr \<lparr>UpdateTODORequest.ID = 0, Subject = s, Description = []\<rparr>"
    by (simp add: decode_eval)
next
  fix i :: int
  assume "MinInt64 \<le> i \<and> i \<le> MaxInt64"
  then show "Decode_UpdateTODORequest (Inr (JObject [(''id'', JNum i)]))
          = Inr \<lparr>UpdateTODORequest.ID = word_of_int i, Subject = [], Description = []\<rparr>"
    by (simp add: Decode_UpdateTODORequest_def unmarshal_UpdateTODORequest_def
          zero_UpdateTODORequest_def keyIs_def upperASCII_def)
next
  fix i :: int and s
  assume "MinInt64 \<le> i \<and> i \<le> MaxInt64"
  then show "Decode_UpdateTODORequest (Inr (JObject [(''id'', JNum i), (''subject'', JString s)]))
          = Inr \<lparr>UpdateTODORequest.ID = word_of_int i, Subject = s, Description = []\<rparr>"
    by (simp add: Decode_UpdateTODORequest_def unmarshal_UpdateTODORequest_def
          zero_UpdateTODORequest_def keyIs_def upperASCII_def)
qed

text \<open>
  At the POST body \<open>{"subject":"Buy milk"}\<close> and the PUT bodies
  \<open>{"id":2,"subject":"x"}\<close>, \<open>{"description":"d"}\<close> and \<open>{"id":7}\<close>.
\<close>

theorem absent_fields_are_zero_and_unchecked_witness:
  "(\<exists>req. unmarshal_CreateTODORequest (JObject [(''subject'', JString ''Buy milk'')]) = Inr req \<and>
      CreateTODORequest.Description req = []) \<and>
   calls (worldOf (handleCreate sampleJSON (NewTODOHandler memService) w0
       (request ''POST'' (JObject [(''subject'', JString ''Buy milk'')])) (world0 store0)))
     = [CallCreateTODO ''Buy milk'' []] \<and>
   calls (worldOf (handleUpdate sampleJSON (NewTODOHandler memService) w0
       (request ''PUT'' (JObject [(''id'', JNum 2), (''subject'', JString ''x'')]))
       (world0 store0)))
     = [CallUpdateTODO 2 ''x'' []] \<and>
   (\<exists>req. unmarshal_UpdateTODORequest (JObject [(''description'', JString ''d'')]) = Inr req \<and>
      UpdateTODORequest.ID req = 0 \<and> UpdateTODORequest.Subject req = []) \<and>
   Decode_UpdateTODORequest (Inr (JObject [(''id'', JNum 7)]))
     = Inr \<lparr>UpdateTODORequest.ID = 7, Subject = [], Description = []\<rparr>"
proof -
  let ?J = sampleJSON and ?h = "NewTODOHandler memService" and ?s = "world0 store0"
  let ?ms = "[(''subject'', JString ''Buy milk'')]"
  let ?md = "[(''description'', JString ''d'')]"
  let ?post = "request ''POST'' (JObject ?ms)"
  let ?put = "request ''PUT'' (JObject [(''id'', JNum 2), (''subject'', JString ''x'')])"
  let ?ureq = "\<lparr>UpdateTODORequest.ID = 2, Subject = ''x'', Description = []\<rparr>"
  note P = absent_fields_are_zero_and_unchecked [of ?post ?J ?h w0 ?s]
  note U = absent_fields_are_zero_and_unchecked [of ?put ?J ?h w0 ?s]
  note P1 = P [THEN conjunct1]
  note P2 = P [THEN conjunct2, THEN conjunct1]
  note T5 = P [THEN conjunct2, THEN conjunct2, THEN conjunct2, THEN conjunct2, THEN conjunct2]
  note P6 = T5 [THEN conjunct1]
  note U8 = U [THEN conjunct2, THEN conjunct2, THEN conjunct2, THEN conjunct2, THEN conjunct2,
      THEN conjunct2, THEN conjunct2, THEN conjunct1]
  note T8 = T5 [THEN conjunct2, THEN conjunct2, THEN conjunct2]
  note P9 = T8 [THEN conjunct1]
  note P10 = T8 [THEN conjunct2, THEN conjunct1]
  note P12 = T8 [THEN conjunct2, THEN conjunct2, THEN conjunct2, THEN conjunct1]
  note T14 = T8 [THEN conjunct2, THEN conjunct2, THEN conjunct2, THEN conjunct2, THEN conjunct2,
      THEN conjunct2]
  note P16 = T14 [THEN conjunct2, THEN conjunct1]
  have cf: "calls ?s = []" by (simp add: world0_def)
  have ok: "\<forall>m\<in>set ?ms. stringOrNull (snd m)" by simp
  have nd: "\<forall>m\<in>set ?ms. \<not> keyIs ''description'' (fst m)"
    by (simp add: keyIs_def upperASCII_def)
  from P1 [THEN spec, THEN mp, OF ok] obtain req where
    r: "unmarshal_CreateTODORequest (JObject ?ms) = Inr req"
    by blast
  from r nd have "unmarshal_CreateTODORequest (JObject ?ms) = Inr req \<and>
      (\<forall>m\<in>set ?ms. \<not> keyIs ''description'' (fst m))"
    by simp
  from P2 [THEN spec, THEN spec, THEN mp, OF this] have z: "CreateTODORequest.Description req = []" .
  have b: "(''Buy milk'' :: string) \<noteq> [] \<and> Body ?post = Inr (JObject ?ms)"
    by (simp add: request_def)
  from P6 [THEN spec, THEN mp, OF b] cf
  have 1: "calls (worldOf (handleCreate ?J ?h w0 ?post ?s)) = [CallCreateTODO ''Buy milk'' []]"
    by simp
  have d: "Decode_UpdateTODORequest (Body ?put) = Inr ?ureq \<and>
      UpdateTODORequest.ID ?ureq \<noteq> 0 \<and> UpdateTODORequest.Subject ?ureq \<noteq> []"
    by (simp add: decode_eval)
  from U8 [THEN spec, THEN mp, OF d] cf
  have 2: "calls (worldOf (handleUpdate ?J ?h w0 ?put ?s)) = [CallUpdateTODO 2 ''x'' []]"
    by simp
  have fu: "\<forall>m\<in>set ?md. fits_UpdateTODORequest m"
    by (simp add: fits_UpdateTODORequest_def keyIs_def upperASCII_def)
  have ni: "\<forall>m\<in>set ?md. \<not> keyIs ''id'' (fst m)"
    by (simp add: keyIs_def upperASCII_def)
  have ns: "\<forall>m\<in>set ?md. \<not> keyIs ''subject'' (fst m)"
    by (simp add: keyIs_def upperASCII_def)
  from P12 [THEN spec, THEN mp, OF fu] obtain ureq where
    u: "unmarshal_UpdateTODORequest (JObject ?md) = Inr ureq"
    by blast
  from u ni have "unmarshal_UpdateTODORequest (JObject ?md) = Inr ureq \<and>
      (\<forall>m\<in>set ?md. \<not> keyIs ''id'' (fst m))"
    by simp
  from P9 [THEN spec, THEN spec, THEN mp, OF this] have 3: "UpdateTODORequest.ID ureq = 0" .
  from u ns have "unmarshal_UpdateTODORequest (JObject ?md) = Inr ureq \<and>
      (\<forall>m\<in>set ?md. \<not> keyIs ''subject'' (fst m))"
    by simp
  from P10 [THEN spec, THEN spec, THEN mp, OF this] have 4: "UpdateTODORequest.Subject ureq = []" .
  have rg: "MinInt64 \<le> 7 \<and> 7 \<le> MaxInt64"
    by (simp add: MinInt64_def MaxInt64_def)
  from P16 [THEN spec, THEN mp, OF rg]
  have 5: "Decode_UpdateTODORequest (Inr (JObject [(''id'', JNum 7)]))
     = Inr \<lparr>UpdateTODORequest.ID = 7, Subject = [], Description = []\<rparr>"
    by simp
  from r z 1 2 u 3 4 5 show ?thesis by blast
qed

end
